theory Spec2Isabelle
  imports Main "HOL-Library.Multiset" "HOL-Library.Char_ord" "HOL-Library.List_Lexorder"
begin

section \<open>Values shared by the practice page and the quiz page\<close>

text \<open>
  The file \<^verbatim>\<open>static/js/practice.js\<close> holds two session engines: the linear practice
  page (lines 1-456, state \<^verbatim>\<open>practiceState\<close>) and the concept-group quiz page
  (lines 584-1076, state \<^verbatim>\<open>quizState\<close>). Both are event handlers over a global
  state object and the DOM. Each handler is embedded as a function from the page (the state
  object together with the DOM properties the handlers read and write) to the new page and
  the list of effects it emits (network requests, alerts, navigation, popup operations).
  A \<^verbatim>\<open>fetch(...).then(f).catch(g)\<close> chain is split where the source splits it: the
  handler proper, \<^verbatim>\<open>_then\<close> for \<^verbatim>\<open>f\<close> applied to the response, and
  \<^verbatim>\<open>_catch\<close> for \<^verbatim>\<open>g\<close>.
  Of the DOM, the model keeps the answer inputs (value, disabled, checked), the
  \<^verbatim>\<open>d-none\<close> class of the buttons and sections, and the feedback shown; text
  content, progress bars and inline styles are left out.
\<close>

datatype js_error = TypeError | FetchFailed string

text \<open>JavaScript truthiness of a string-valued property that may be missing:
  \<^verbatim>\<open>undefined\<close>, \<^verbatim>\<open>null\<close> and the empty string are falsy.\<close>

definition truthy :: "string option \<Rightarrow> string option" where
  "truthy v = (case v of None \<Rightarrow> None | Some s \<Rightarrow> if s = [] then None else Some s)"

text \<open>\<^verbatim>\<open>arr[i]\<close>: \<^verbatim>\<open>undefined\<close> outside the array.\<close>

definition nth_opt :: "'a list \<Rightarrow> nat \<Rightarrow> 'a option" where
  "nth_opt xs i = (if i < length xs then Some (xs ! i) else None)"

text \<open>\<^verbatim>\<open>arr.join(',')\<close>\<close>

fun join_commas :: "string list \<Rightarrow> string" where
  "join_commas [] = []"
| "join_commas [x] = x"
| "join_commas (x # y # ys) = x @ CHR '','' # join_commas (y # ys)"

text \<open>\<^verbatim>\<open>s.split(',')\<close>: always at least one piece.\<close>

fun split_commas :: "string \<Rightarrow> string list" where
  "split_commas [] = [[]]"
| "split_commas (c # cs) =
     (if c = CHR '','' then [] # split_commas cs
      else (case split_commas cs of
              [] \<Rightarrow> [[c]]
            | p # ps \<Rightarrow> (c # p) # ps))"

text \<open>Number to string, as string concatenation with a non-negative integer does.\<close>

definition digit_char :: "nat \<Rightarrow> char" where
  "digit_char d = ''0123456789'' ! (d mod 10)"

fun string_of_nat :: "nat \<Rightarrow> string" where
  "string_of_nat n =
     (if n < 10 then [digit_char n]
      else string_of_nat (n div 10) @ [digit_char (n mod 10)])"

declare string_of_nat.simps [simp del]

text \<open>A question object as the server sends it. \<^verbatim>\<open>choices\<close> holds the entries in
  the order in which the page renders them (the pages sort the entries with
  \<^verbatim>\<open>localeCompare\<close>, the browser's collation).\<close>

record question =
  q_id :: string
  q_type :: "string option"
  question_type :: "string option"
  question_number :: int
  question_text :: string
  multi_answer :: bool
  correct_answer :: "string option"
  choices :: "(string \<times> string) list"

text \<open>One rendered \<^verbatim>\<open><input name="answer">\<close>.\<close>

record choice_input =
  ci_value :: string
  disabled :: bool
  checked :: bool

definition render_choices :: "question \<Rightarrow> choice_input list" where
  "render_choices q =
     map (\<lambda>entry. \<lparr>ci_value = fst entry, disabled = False, checked = False\<rparr>) (choices q)"

text \<open>\<^verbatim>\<open>document.querySelectorAll('input[name="answer"]:checked')\<close>, in document order;
  a disabled input that is checked still matches.\<close>

definition checked_values :: "choice_input list \<Rightarrow> string list" where
  "checked_values inputs = map ci_value (filter checked inputs)"

text \<open>\<^verbatim>\<open>Array.from(...).map(el => el.value).sort().join(',')\<close>: the default
  \<^verbatim>\<open>sort\<close> compares strings code unit by code unit.\<close>

definition normalized_answer :: "string list \<Rightarrow> string" where
  "normalized_answer letters = join_commas (sort letters)"

definition disable_all :: "choice_input list \<Rightarrow> choice_input list" where
  "disable_all inputs = map (\<lambda>i. i\<lparr>disabled := True\<rparr>) inputs"

definition enable_all :: "choice_input list \<Rightarrow> choice_input list" where
  "enable_all inputs = map (\<lambda>i. i\<lparr>disabled := False\<rparr>) inputs"

text \<open>A click of the user on the \<^verbatim>\<open>k\<close>-th rendered choice. A disabled input takes no
  click; a radio button checks itself and unchecks the others of its group; a checkbox
  toggles.\<close>

definition click_input :: "bool \<Rightarrow> nat \<Rightarrow> choice_input list \<Rightarrow> choice_input list" where
  "click_input is_checkbox k inputs =
     (case nth_opt inputs k of
        None \<Rightarrow> inputs
      | Some i \<Rightarrow>
          if disabled i then inputs
          else if is_checkbox then inputs[k := i\<lparr>checked := \<not> checked i\<rparr>]
          else (map (\<lambda>j. j\<lparr>checked := False\<rparr>) inputs)[k := i\<lparr>checked := True\<rparr>])"

datatype request =
    PracticeCheckAnswer string string
  | PracticeExplain string
  | PracticeSkip string
  | PracticeNext
  | QuizSubmit "string option" string string int string
  | QuizGroupQuestion string "string option" string

datatype effect =
    Fetch request
  | Alert string
  | AlertError string js_error
  | Navigate "string option"
  | PopupOpen string
  | PopupClose
  | Uncaught js_error

datatype content =
    Plain string
  | Failure string js_error
  | Revealed string string

section \<open>The practice page (linear session)\<close>

text \<open>The JSON bodies of the practice endpoints, with the properties the handlers read.\<close>

record check_data =
  cd_error :: "string option"
  cd_correct :: bool
  cd_feedback :: string
  cd_correct_answer :: "string option"
  cd_attempt :: int
  cd_can_reveal :: bool
  cd_disabled_choices :: "string list option"

record explain_data =
  ed_error :: "string option"
  ed_correct_answer :: "string option"
  ed_correct_answer_text :: string
  ed_feedback :: string

record skip_data =
  sd_error :: "string option"
  sd_done :: bool
  sd_next_question :: "question option"
  sd_total_questions :: int

record next_data =
  nd_error :: "string option"
  nd_done :: bool
  nd_question :: "question option"

text \<open>\<^verbatim>\<open>practiceState\<close> (the first ten fields) and the practice page's DOM.\<close>

record practice_page =
  protocolSlug :: "string option"
  totalQuestions :: int
  currentQuestion :: "question option"
  questionNumber :: int
  correctCount :: int
  incorrectCount :: int
  skippedCount :: int
  p_attemptNumber :: int
  disabledChoices :: "string list"
  canReveal :: bool
  answer_choices :: "choice_input list"
  feedback_section_hidden :: bool
  feedback_status :: "string \<times> string"
  feedback_content :: content
  ai_loading_hidden :: bool
  submit_btn_hidden :: bool
  submit_btn_disabled :: bool
  skip_btn_hidden :: bool
  try_again_btn_hidden :: bool
  reveal_btn_hidden :: bool
  next_btn_hidden :: bool

text \<open>The module-level initialiser \<^verbatim>\<open>let practiceState = {...}\<close>, on any DOM.\<close>

definition practiceState_init :: "practice_page \<Rightarrow> practice_page" where
  "practiceState_init pg = pg\<lparr>
     protocolSlug := None, totalQuestions := 0, currentQuestion := None,
     questionNumber := 0, correctCount := 0, incorrectCount := 0, skippedCount := 0,
     p_attemptNumber := 0, disabledChoices := [], canReveal := False\<rparr>"

definition showFeedback :: "string \<Rightarrow> string \<Rightarrow> content \<Rightarrow> practice_page \<Rightarrow> practice_page" where
  "showFeedback type title cont pg = pg\<lparr>
     feedback_section_hidden := False, feedback_status := (type, title),
     feedback_content := cont\<rparr>"

definition displayQuestion :: "question \<Rightarrow> practice_page \<Rightarrow> practice_page" where
  "displayQuestion questionData pg = pg\<lparr>
     currentQuestion := Some questionData,
     questionNumber := question_number questionData,
     p_attemptNumber := 0,
     disabledChoices := [],
     canReveal := False,
     answer_choices := enable_all (render_choices questionData),
     feedback_section_hidden := True,
     ai_loading_hidden := True,
     submit_btn_hidden := False,
     submit_btn_disabled := True,
     skip_btn_hidden := False,
     try_again_btn_hidden := True,
     reveal_btn_hidden := True,
     next_btn_hidden := True\<rparr>"

text \<open>\<^verbatim>\<open>applyDisabledChoices\<close>: \<^verbatim>\<open>getElementById('choice-' + letter)\<close> finds the
  first input rendered for that letter, if any.\<close>

fun disable_choice :: "string \<Rightarrow> choice_input list \<Rightarrow> choice_input list" where
  "disable_choice letter [] = []"
| "disable_choice letter (i # inputs) =
     (if ci_value i = letter then i\<lparr>disabled := True, checked := False\<rparr> # inputs
      else i # disable_choice letter inputs)"

fun applyDisabledChoices :: "string list \<Rightarrow> choice_input list \<Rightarrow> choice_input list" where
  "applyDisabledChoices [] inputs = inputs"
| "applyDisabledChoices (letter # letters) inputs =
     applyDisabledChoices letters (disable_choice letter inputs)"

definition navigateToSummary :: "practice_page \<Rightarrow> effect list" where
  "navigateToSummary pg = [Navigate (protocolSlug pg)]"

subsection \<open>submitAnswer\<close>

definition practice_submitAnswer :: "practice_page \<Rightarrow> practice_page \<times> effect list" where
  "practice_submitAnswer pg =
     (case currentQuestion pg of
        None \<Rightarrow> (pg, [Uncaught TypeError])
      | Some question \<Rightarrow>
          (let selected =
                 (if multi_answer question
                    then Some (normalized_answer (checked_values (answer_choices pg)))
                    else (case checked_values (answer_choices pg) of
                            [] \<Rightarrow> None
                          | v # _ \<Rightarrow> Some v))
           in case truthy selected of
                None \<Rightarrow> (pg, [])
              | Some sel \<Rightarrow>
                  (pg\<lparr>ai_loading_hidden := False,
                      submit_btn_hidden := True,
                      skip_btn_hidden := True,
                      try_again_btn_hidden := True,
                      reveal_btn_hidden := True,
                      answer_choices := disable_all (answer_choices pg)\<rparr>,
                   [Fetch (PracticeCheckAnswer (q_id question) sel)])))"

definition practice_submitAnswer_catch :: "js_error \<Rightarrow> practice_page \<Rightarrow> practice_page" where
  "practice_submitAnswer_catch err pg =
     (showFeedback ''danger'' ''Error'' (Failure ''Failed to submit answer: '' err)
        (pg\<lparr>ai_loading_hidden := True\<rparr>))\<lparr>skip_btn_hidden := False\<rparr>"

text \<open>The \<^verbatim>\<open>then\<close> callback. \<^verbatim>\<open>highlightCorrectAnswer\<close> only restyles the
  wrappers, but it calls \<^verbatim>\<open>split\<close> on \<^verbatim>\<open>data.correct_answer\<close>: when that is
  missing the callback throws after the counter was incremented, and the \<^verbatim>\<open>catch\<close>
  callback of the chain runs.\<close>

definition practice_submitAnswer_then :: "check_data \<Rightarrow> practice_page \<Rightarrow> practice_page" where
  "practice_submitAnswer_then data pg =
     (let pg1 = pg\<lparr>ai_loading_hidden := True\<rparr> in
      case truthy (cd_error data) of
        Some e \<Rightarrow> (showFeedback ''danger'' ''Error'' (Plain e) pg1)\<lparr>skip_btn_hidden := False\<rparr>
      | None \<Rightarrow>
          if cd_correct data then
            (let pg2 = showFeedback ''success'' ''Correct!'' (Plain (cd_feedback data))
                         (pg1\<lparr>correctCount := correctCount pg1 + 1\<rparr>)
             in case cd_correct_answer data of
                  None \<Rightarrow> practice_submitAnswer_catch TypeError pg2
                | Some a \<Rightarrow> pg2\<lparr>next_btn_hidden := False\<rparr>)
          else
            (let pg2 = pg1\<lparr>p_attemptNumber := cd_attempt data,
                           canReveal := cd_can_reveal data,
                           disabledChoices :=
                             (case cd_disabled_choices data of None \<Rightarrow> [] | Some l \<Rightarrow> l)\<rparr>;
                 pg3 = showFeedback ''warning'' ''Not quite. Here's a hint...''
                         (Plain (cd_feedback data)) pg2;
                 pg4 = pg3\<lparr>answer_choices :=
                             applyDisabledChoices (disabledChoices pg3) (answer_choices pg3),
                           try_again_btn_hidden := False\<rparr>
             in if cd_can_reveal data then pg4\<lparr>reveal_btn_hidden := False\<rparr> else pg4))"

subsection \<open>tryAgain, revealAnswer, skipQuestion, nextQuestion\<close>

definition practice_tryAgain :: "practice_page \<Rightarrow> practice_page" where
  "practice_tryAgain pg = pg\<lparr>
     feedback_section_hidden := True,
     try_again_btn_hidden := True,
     reveal_btn_hidden := True,
     submit_btn_hidden := False,
     submit_btn_disabled := True,
     skip_btn_hidden := False,
     answer_choices :=
       map (\<lambda>i. (if ci_value i \<notin> set (disabledChoices pg) then i\<lparr>disabled := False\<rparr> else i)
                  \<lparr>checked := False\<rparr>)
           (answer_choices pg)\<rparr>"

definition revealAnswer :: "practice_page \<Rightarrow> practice_page \<times> effect list" where
  "revealAnswer pg =
     (let pg1 = pg\<lparr>ai_loading_hidden := False,
                    try_again_btn_hidden := True,
                    reveal_btn_hidden := True\<rparr>
      in case currentQuestion pg of
           None \<Rightarrow> (pg1, [Uncaught TypeError])
         | Some question \<Rightarrow> (pg1, [Fetch (PracticeExplain (q_id question))]))"

definition revealAnswer_catch :: "js_error \<Rightarrow> practice_page \<Rightarrow> practice_page" where
  "revealAnswer_catch err pg =
     showFeedback ''danger'' ''Error'' (Failure ''Failed to reveal answer: '' err)
       (pg\<lparr>ai_loading_hidden := True\<rparr>)"

definition revealAnswer_then :: "explain_data \<Rightarrow> practice_page \<Rightarrow> practice_page" where
  "revealAnswer_then data pg =
     (let pg1 = pg\<lparr>ai_loading_hidden := True\<rparr> in
      case truthy (ed_error data) of
        Some e \<Rightarrow> showFeedback ''danger'' ''Error'' (Plain e) pg1
      | None \<Rightarrow>
          (let pg2 = pg1\<lparr>incorrectCount := incorrectCount pg1 + 1\<rparr> in
           case ed_correct_answer data of
             None \<Rightarrow> revealAnswer_catch TypeError pg2
           | Some a \<Rightarrow>
               (showFeedback ''info'' ''Answer Revealed''
                  (Revealed (ed_correct_answer_text data) (ed_feedback data)) pg2)
               \<lparr>next_btn_hidden := False\<rparr>))"

definition skipQuestion :: "practice_page \<Rightarrow> practice_page \<times> effect list" where
  "skipQuestion pg =
     (case currentQuestion pg of
        None \<Rightarrow> (pg, [Uncaught TypeError])
      | Some question \<Rightarrow> (pg, [Fetch (PracticeSkip (q_id question))]))"

definition skipQuestion_catch :: "js_error \<Rightarrow> practice_page \<Rightarrow> practice_page" where
  "skipQuestion_catch err pg =
     showFeedback ''danger'' ''Error'' (Failure ''Failed to skip: '' err) pg"

definition skipQuestion_then :: "skip_data \<Rightarrow> practice_page \<Rightarrow> practice_page \<times> effect list" where
  "skipQuestion_then data pg =
     (case truthy (sd_error data) of
        Some e \<Rightarrow> (showFeedback ''danger'' ''Error'' (Plain e) pg, [])
      | None \<Rightarrow>
          (let pg1 = pg\<lparr>skippedCount := skippedCount pg + 1\<rparr> in
           case (if sd_done data then None else sd_next_question data) of
             None \<Rightarrow> (pg1, navigateToSummary pg1)
           | Some q \<Rightarrow>
               (displayQuestion q (pg1\<lparr>totalQuestions := sd_total_questions data\<rparr>), [])))"

definition nextQuestion :: "practice_page \<Rightarrow> practice_page \<times> effect list" where
  "nextQuestion pg = (pg, [Fetch PracticeNext])"

definition nextQuestion_catch :: "js_error \<Rightarrow> practice_page \<Rightarrow> practice_page" where
  "nextQuestion_catch err pg =
     showFeedback ''danger'' ''Error'' (Failure ''Failed to get next question: '' err) pg"

definition nextQuestion_then :: "next_data \<Rightarrow> practice_page \<Rightarrow> practice_page \<times> effect list" where
  "nextQuestion_then data pg =
     (case truthy (nd_error data) of
        Some e \<Rightarrow> (showFeedback ''danger'' ''Error'' (Plain e) pg, [])
      | None \<Rightarrow>
          (case (if nd_done data then None else nd_question data) of
             None \<Rightarrow> (pg, navigateToSummary pg)
           | Some q \<Rightarrow> (displayQuestion q pg, [])))"

subsection \<open>The practice page as an event system\<close>

text \<open>The events the page reacts to: clicks of the user, delivered only to a control
  that is shown and enabled, and the settling of the requests the page has sent.\<close>

datatype practice_event =
    ClickChoice nat
  | ClickSubmit
  | ClickTryAgain
  | ClickReveal
  | ClickSkip
  | ClickNext
  | CheckAnswerResponse check_data
  | CheckAnswerFailed string
  | ExplainResponse explain_data
  | ExplainFailed string
  | SkipResponse skip_data
  | SkipFailed string
  | NextResponse next_data
  | NextFailed string

definition practice_submit_available :: "practice_page \<Rightarrow> bool" where
  "practice_submit_available pg = (\<not> submit_btn_hidden pg \<and> \<not> submit_btn_disabled pg)"

text \<open>The \<^verbatim>\<open>change\<close> listener that \<^verbatim>\<open>displayQuestion\<close> puts on every input
  enables the submit button.\<close>

definition practice_clickChoice :: "nat \<Rightarrow> practice_page \<Rightarrow> practice_page" where
  "practice_clickChoice k pg =
     (let is_checkbox = (case currentQuestion pg of None \<Rightarrow> False | Some q \<Rightarrow> multi_answer q);
          inputs = click_input is_checkbox k (answer_choices pg)
      in if inputs = answer_choices pg then pg
         else pg\<lparr>answer_choices := inputs, submit_btn_disabled := False\<rparr>)"

fun practice_step :: "practice_event \<Rightarrow> practice_page \<Rightarrow> practice_page \<times> effect list" where
  "practice_step (ClickChoice k) pg = (practice_clickChoice k pg, [])"
| "practice_step ClickSubmit pg =
     (if practice_submit_available pg then practice_submitAnswer pg else (pg, []))"
| "practice_step ClickTryAgain pg =
     (if try_again_btn_hidden pg then (pg, []) else (practice_tryAgain pg, []))"
| "practice_step ClickReveal pg =
     (if reveal_btn_hidden pg then (pg, []) else revealAnswer pg)"
| "practice_step ClickSkip pg =
     (if skip_btn_hidden pg then (pg, []) else skipQuestion pg)"
| "practice_step ClickNext pg =
     (if next_btn_hidden pg then (pg, []) else nextQuestion pg)"
| "practice_step (CheckAnswerResponse data) pg = (practice_submitAnswer_then data pg, [])"
| "practice_step (CheckAnswerFailed msg) pg = (practice_submitAnswer_catch (FetchFailed msg) pg, [])"
| "practice_step (ExplainResponse data) pg = (revealAnswer_then data pg, [])"
| "practice_step (ExplainFailed msg) pg = (revealAnswer_catch (FetchFailed msg) pg, [])"
| "practice_step (SkipResponse data) pg = skipQuestion_then data pg"
| "practice_step (SkipFailed msg) pg = (skipQuestion_catch (FetchFailed msg) pg, [])"
| "practice_step (NextResponse data) pg = nextQuestion_then data pg"
| "practice_step (NextFailed msg) pg = (nextQuestion_catch (FetchFailed msg) pg, [])"

text \<open>A run of events: the page at the end and every effect emitted, in order.\<close>

fun practice_run :: "practice_event list \<Rightarrow> practice_page \<Rightarrow> practice_page \<times> effect list" where
  "practice_run [] pg = (pg, [])"
| "practice_run (e # es) pg =
     (let (pg1, effs1) = practice_step e pg;
          (pg2, effs2) = practice_run es pg1
      in (pg2, effs1 @ effs2))"

definition counters :: "practice_page \<Rightarrow> int \<times> int \<times> int" where
  "counters pg = (correctCount pg, incorrectCount pg, skippedCount pg)"

section \<open>The quiz page (concept-group session)\<close>

text \<open>A concept-group object. Its \<^verbatim>\<open>seen_questions\<close> property, when set, refers to
  an array that the \<^verbatim>\<open>then\<close> callbacks of \<^verbatim>\<open>loadMoreFromConcept\<close> also hold and
  push to; the arrays live in a store of the page (\<open>seenArrays\<close> below) and the property
  holds the array's address, its position in that store.\<close>

record concept_group =
  group_id :: string
  concept :: string
  question :: question
  seen_questions :: "nat option"

text \<open>The outcome record stored in \<^verbatim>\<open>quizState.scores\<close> under a group id.\<close>

record score =
  firstAttemptCorrect :: bool
  attempts :: int
  score_concept :: string

text \<open>The handle of the drag-and-drop popup: the question it was opened for and the
  window's \<^verbatim>\<open>closed\<close> property.\<close>

record popup =
  popup_question :: string
  closed :: bool

text \<open>The parsed JSON bodies of the quiz endpoints and the message posted by the popup. A
  group-question body without an error carries a question. A start body is the objects
  that parsing it creates: the groups, and the \<^verbatim>\<open>seen_questions\<close> arrays of the groups
  that carry one, each group referring to an array of its own by its position in
  \<open>st_seen_arrays\<close>.\<close>

record start_data =
  st_error :: "string option"
  st_session_id :: "string option"
  st_protocol :: "string option"
  st_concept_groups :: "concept_group list"
  st_seen_arrays :: "string list list"
  st_total_concepts :: int

record submit_data =
  sb_error :: "string option"
  sb_correct :: bool
  sb_explanation :: string
  sb_hint :: string
  sb_attempt :: int
  sb_more_in_group :: int

record group_question_data =
  gq_error :: "string option"
  gq_all_covered :: bool
  gq_question :: question

record message =
  m_type :: string
  m_questionId :: string
  m_correct :: bool

text \<open>\<^verbatim>\<open>quizState\<close> (the first nine fields), the quiz page's DOM, and the store of
  the \<^verbatim>\<open>seen_questions\<close> arrays.\<close>

record quiz_page =
  sessionId :: "string option"
  protocol :: "string option"
  conceptGroups :: "concept_group list"
  currentIndex :: nat
  attemptNumber :: int
  scores :: "string \<rightharpoonup> score"
  totalConcepts :: int
  dragDropWindow :: "popup option"
  dragDropQuestions :: "question list"
  answerChoices :: "choice_input list"
  feedbackSection_hidden :: bool
  feedbackStatus :: string
  submitBtn_hidden :: bool
  tryAgainBtn_hidden :: bool
  moreConceptBtn_hidden :: bool
  nextTopicBtn_hidden :: bool
  quizSetup_hidden :: bool
  quizInterface_hidden :: bool
  quizSummary_hidden :: bool
  seenArrays :: "string list list"

text \<open>Reading the array at an address, and \<^verbatim>\<open>push\<close> on it. Every address the
  handlers use was taken from the store, so the cases outside the store are never
  reached.\<close>

definition update_at :: "nat \<Rightarrow> ('a \<Rightarrow> 'a) \<Rightarrow> 'a list \<Rightarrow> 'a list" where
  "update_at i f xs = (case nth_opt xs i of None \<Rightarrow> xs | Some x \<Rightarrow> xs[i := f x])"

definition array_at :: "string list list \<Rightarrow> nat \<Rightarrow> string list" where
  "array_at store r = (case nth_opt store r of None \<Rightarrow> [] | Some arr \<Rightarrow> arr)"

definition push_at :: "nat \<Rightarrow> string \<Rightarrow> string list list \<Rightarrow> string list list" where
  "push_at r x store = update_at r (\<lambda>arr. arr @ [x]) store"

text \<open>The module-level initialiser \<^verbatim>\<open>let quizState = {...}\<close>, on any DOM.\<close>

definition quizState_init :: "quiz_page \<Rightarrow> quiz_page" where
  "quizState_init pg = pg\<lparr>
     sessionId := None, protocol := None, conceptGroups := [], currentIndex := 0,
     attemptNumber := 1, scores := Map.empty, totalConcepts := 0, dragDropWindow := None,
     dragDropQuestions := []\<rparr>"

text \<open>\<^verbatim>\<open>question.multi_answer || (question.correct_answer &&
  question.correct_answer.includes(','))\<close> and
  \<^verbatim>\<open>isMultiAnswer ? question.correct_answer.split(',').length : 1\<close>; the latter throws
  when a question flagged \<^verbatim>\<open>multi_answer\<close> has no \<^verbatim>\<open>correct_answer\<close>.\<close>

definition isMultiAnswer :: "question \<Rightarrow> bool" where
  "isMultiAnswer q =
     (multi_answer q \<or>
      (case truthy (correct_answer q) of None \<Rightarrow> False | Some s \<Rightarrow> CHR '','' \<in> set s))"

definition numCorrect :: "question \<Rightarrow> js_error + nat" where
  "numCorrect q =
     (if isMultiAnswer q
        then (case correct_answer q of
                None \<Rightarrow> Inl TypeError
              | Some s \<Rightarrow> Inr (length (split_commas s)))
        else Inr 1)"

text \<open>\<^verbatim>\<open>if (quizState.dragDropWindow && !quizState.dragDropWindow.closed)
  quizState.dragDropWindow.close()\<close>\<close>

definition close_dragDropWindow :: "quiz_page \<Rightarrow> quiz_page \<times> effect list" where
  "close_dragDropWindow pg =
     (case dragDropWindow pg of
        None \<Rightarrow> (pg, [])
      | Some w \<Rightarrow>
          if closed w then (pg, [])
          else (pg\<lparr>dragDropWindow := Some (w\<lparr>closed := True\<rparr>)\<rparr>, [PopupClose]))"

text \<open>An exception thrown inside a \<^verbatim>\<open>then\<close> callback reaches the \<^verbatim>\<open>catch\<close>
  callback of the chain, which on the quiz page shows an alert.\<close>

definition caught :: "string \<Rightarrow> effect list \<Rightarrow> effect list" where
  "caught prefix effs =
     map (\<lambda>e. case e of Uncaught err \<Rightarrow> AlertError prefix err | _ \<Rightarrow> e) effs"

definition showSummary :: "quiz_page \<Rightarrow> quiz_page \<times> effect list" where
  "showSummary pg =
     (let (pg1, effs) = close_dragDropWindow pg
      in (pg1\<lparr>quizInterface_hidden := True, quizSummary_hidden := False\<rparr>, effs))"

definition displayDragDropQuestion :: "quiz_page \<Rightarrow> quiz_page" where
  "displayDragDropQuestion pg = pg\<lparr>
     answerChoices := [],
     feedbackSection_hidden := True,
     submitBtn_hidden := True,
     tryAgainBtn_hidden := True,
     moreConceptBtn_hidden := True,
     nextTopicBtn_hidden := False\<rparr>"

definition is_drag_drop :: "question \<Rightarrow> bool" where
  "is_drag_drop q = (q_type q = Some ''drag_drop'' \<or> question_type q = Some ''drag_drop'')"

text \<open>\<^verbatim>\<open>displayCurrentQuestion\<close>. When \<^verbatim>\<open>numCorrect\<close> throws, nothing of the model
  has been written yet. The drag-and-drop branch returns before the attempt number is
  reset.\<close>

definition displayCurrentQuestion :: "quiz_page \<Rightarrow> quiz_page \<times> effect list" where
  "displayCurrentQuestion pg =
     (case nth_opt (conceptGroups pg) (currentIndex pg) of
        None \<Rightarrow> showSummary pg
      | Some currentGroup \<Rightarrow>
          if is_drag_drop (question currentGroup) then (displayDragDropQuestion pg, [])
          else (case numCorrect (question currentGroup) of
                  Inl err \<Rightarrow> (pg, [Uncaught err])
                | Inr n \<Rightarrow>
                    (pg\<lparr>answerChoices := render_choices (question currentGroup),
                        feedbackSection_hidden := True,
                        submitBtn_hidden := False,
                        tryAgainBtn_hidden := True,
                        moreConceptBtn_hidden := True,
                        nextTopicBtn_hidden := True,
                        attemptNumber := 1\<rparr>, [])))"

text \<open>\<^verbatim>\<open>openDragDropPopup\<close>; \<^verbatim>\<open>window.open\<close> yields no handle when the browser
  blocks the popup.\<close>

definition openDragDropPopup :: "string \<Rightarrow> bool \<Rightarrow> quiz_page \<Rightarrow> quiz_page \<times> effect list" where
  "openDragDropPopup questionId blocked pg =
     (let (pg1, effs) = close_dragDropWindow pg
      in (pg1\<lparr>dragDropWindow :=
                 (if blocked then None
                  else Some \<lparr>popup_question = questionId, closed = False\<rparr>),
               answerChoices := []\<rparr>,
          effs @ [PopupOpen questionId]))"

subsection \<open>handleDragDropMessage\<close>

definition handleDragDropMessage :: "message option \<Rightarrow> quiz_page \<Rightarrow> quiz_page" where
  "handleDragDropMessage data pg =
     (case data of
        None \<Rightarrow> pg
      | Some m \<Rightarrow>
          if m_type m \<noteq> ''dragDropComplete'' then pg
          else (case nth_opt (conceptGroups pg) (currentIndex pg) of
                  None \<Rightarrow> pg
                | Some currentGroup \<Rightarrow>
                    if m_correct m then
                      pg\<lparr>scores := (scores pg)(group_id currentGroup \<mapsto>
                            \<lparr>firstAttemptCorrect = (attemptNumber pg = 1),
                             attempts = attemptNumber pg,
                             score_concept = concept currentGroup\<rparr>),
                         feedbackSection_hidden := False,
                         feedbackStatus := ''alert alert-success mb-3'',
                         answerChoices := [],
                         submitBtn_hidden := True,
                         tryAgainBtn_hidden := True,
                         moreConceptBtn_hidden := True,
                         nextTopicBtn_hidden := False\<rparr>
                    else
                      pg\<lparr>feedbackSection_hidden := False,
                         feedbackStatus := ''alert alert-warning mb-3'',
                         answerChoices := [],
                         attemptNumber := attemptNumber pg + 1,
                         nextTopicBtn_hidden := False\<rparr>))"

subsection \<open>submitAnswer and tryAgain\<close>

definition quiz_submitAnswer :: "quiz_page \<Rightarrow> quiz_page \<times> effect list" where
  "quiz_submitAnswer pg =
     (let selectedAnswers = checked_values (answerChoices pg) in
      if length selectedAnswers = 0 then (pg, [Alert ''Please select an answer''])
      else (case nth_opt (conceptGroups pg) (currentIndex pg) of
              None \<Rightarrow> (pg, [Uncaught TypeError])
            | Some currentGroup \<Rightarrow>
                (case numCorrect (question currentGroup) of
                   Inl err \<Rightarrow> (pg, [Uncaught err])
                 | Inr n \<Rightarrow>
                     if isMultiAnswer (question currentGroup) \<and> length selectedAnswers \<noteq> n
                     then (pg, [Alert (''Please select exactly '' @ string_of_nat n
                                       @ '' answers'')])
                     else (pg\<lparr>answerChoices := disable_all (answerChoices pg)\<rparr>,
                           [Fetch (QuizSubmit (sessionId pg) (q_id (question currentGroup))
                                     (normalized_answer selectedAnswers) (attemptNumber pg)
                                     (group_id currentGroup))]))))"

text \<open>The \<^verbatim>\<open>then\<close> callback closes over \<^verbatim>\<open>currentGroup\<close> as it was when the
  answer was submitted.\<close>

definition quiz_submitAnswer_then ::
  "concept_group \<Rightarrow> submit_data \<Rightarrow> quiz_page \<Rightarrow> quiz_page \<times> effect list" where
  "quiz_submitAnswer_then currentGroup data pg =
     (case truthy (sb_error data) of
        Some e \<Rightarrow> (pg, [Alert (''Error: '' @ e)])
      | None \<Rightarrow>
          (let pg1 = pg\<lparr>feedbackSection_hidden := False\<rparr> in
           if sb_correct data then
             (let pg2 = pg1\<lparr>feedbackStatus := ''alert alert-success mb-3'',
                            scores :=
                              (case scores pg1 (group_id currentGroup) of
                                 Some recorded \<Rightarrow> scores pg1
                               | None \<Rightarrow> (scores pg1)(group_id currentGroup \<mapsto>
                                   \<lparr>firstAttemptCorrect = (attemptNumber pg1 = 1),
                                    attempts = attemptNumber pg1,
                                    score_concept = concept currentGroup\<rparr>)),
                            submitBtn_hidden := True\<rparr>;
                  pg3 = (if sb_more_in_group data > 0
                           then pg2\<lparr>moreConceptBtn_hidden := False\<rparr> else pg2)
              in (pg3\<lparr>nextTopicBtn_hidden := False\<rparr>, []))
           else
             (pg1\<lparr>feedbackStatus := ''alert alert-danger mb-3'',
                  attemptNumber := sb_attempt data + 1,
                  submitBtn_hidden := True,
                  tryAgainBtn_hidden := False\<rparr>, [])))"

definition quiz_submitAnswer_catch :: "js_error \<Rightarrow> quiz_page \<Rightarrow> quiz_page \<times> effect list" where
  "quiz_submitAnswer_catch err pg = (pg, [AlertError ''Error submitting answer: '' err])"

definition quiz_tryAgain :: "quiz_page \<Rightarrow> quiz_page" where
  "quiz_tryAgain pg = pg\<lparr>
     answerChoices := map (\<lambda>i. i\<lparr>disabled := False, checked := False\<rparr>) (answerChoices pg),
     feedbackSection_hidden := True,
     tryAgainBtn_hidden := True,
     submitBtn_hidden := False\<rparr>"

subsection \<open>nextTopic, loadMoreFromConcept, startQuiz, restartQuiz\<close>

definition nextTopic :: "quiz_page \<Rightarrow> quiz_page \<times> effect list" where
  "nextTopic pg =
     (let (pg1, effs1) = close_dragDropWindow pg;
          pg2 = pg1\<lparr>currentIndex := currentIndex pg1 + 1,
                    answerChoices := enable_all (answerChoices pg1)\<rparr>;
          (pg3, effs3) = (if currentIndex pg2 \<ge> length (conceptGroups pg2)
                            then showSummary pg2 else displayCurrentQuestion pg2)
      in (pg3, effs1 @ effs3))"

text \<open>What a group's recorded \<^verbatim>\<open>seen_questions\<close> array holds (nothing when the group
  has none), and whether the group's address lies in the store.\<close>

definition recorded_seen :: "quiz_page \<Rightarrow> concept_group \<Rightarrow> string list" where
  "recorded_seen pg g =
     (case seen_questions g of None \<Rightarrow> [] | Some r \<Rightarrow> array_at (seenArrays pg) r)"

definition seen_in_store :: "quiz_page \<Rightarrow> concept_group \<Rightarrow> bool" where
  "seen_in_store pg g =
     (case seen_questions g of None \<Rightarrow> True | Some r \<Rightarrow> r < length (seenArrays pg))"

text \<open>\<^verbatim>\<open>const seenQuestions = currentGroup.seen_questions || []\<close>: the group's array,
  or a new empty array when the group has none. The new array is not stored on the group
  until a response arrives.\<close>

definition captured_seenQuestions :: "quiz_page \<Rightarrow> concept_group \<Rightarrow> nat" where
  "captured_seenQuestions pg currentGroup =
     (case seen_questions currentGroup of
        Some r \<Rightarrow> r
      | None \<Rightarrow> length (seenArrays pg))"

definition loadMoreFromConcept :: "quiz_page \<Rightarrow> quiz_page \<times> effect list" where
  "loadMoreFromConcept pg =
     (case nth_opt (conceptGroups pg) (currentIndex pg) of
        None \<Rightarrow> (pg, [Uncaught TypeError])
      | Some currentGroup \<Rightarrow>
          (let seenQuestions = captured_seenQuestions pg currentGroup;
               pg1 = (case seen_questions currentGroup of
                        Some r \<Rightarrow> pg
                      | None \<Rightarrow> pg\<lparr>seenArrays := seenArrays pg @ [[]]\<rparr>)
           in (pg1, [Fetch (QuizGroupQuestion (group_id currentGroup) (sessionId pg)
                              (join_commas (array_at (seenArrays pg1) seenQuestions)))])))"

text \<open>The \<^verbatim>\<open>then\<close> callback closes over \<^verbatim>\<open>currentGroup\<close>, here the position
  \<open>i\<close> of that object in \<^verbatim>\<open>conceptGroups\<close>, and over \<^verbatim>\<open>seenQuestions\<close>, the
  address of the array the handler read or created. Several requests may be in flight:
  their callbacks share an array when the group had one, and hold an array each when it
  had none. The callback stores its array on the group and pushes the new id to it.\<close>

definition loadMoreFromConcept_then ::
  "nat \<Rightarrow> nat \<Rightarrow> group_question_data \<Rightarrow> quiz_page \<Rightarrow> quiz_page \<times> effect list" where
  "loadMoreFromConcept_then i seenQuestions data pg =
     (case truthy (gq_error data) of
        Some e \<Rightarrow>
          if gq_all_covered data then
            (let (pg1, effs) = nextTopic pg
             in (pg1, Alert ''You have answered all questions in this concept group!''
                      # caught ''Error loading question: '' effs))
          else (pg, [Alert (''Error: '' @ e)])
      | None \<Rightarrow>
          (let pg1 = pg\<lparr>conceptGroups :=
                          update_at i
                            (\<lambda>currentGroup. currentGroup\<lparr>
                               question := gq_question data,
                               seen_questions := Some seenQuestions\<rparr>)
                            (conceptGroups pg),
                        seenArrays :=
                          push_at seenQuestions (q_id (gq_question data)) (seenArrays pg),
                        answerChoices := enable_all (answerChoices pg)\<rparr>;
               (pg2, effs) = displayCurrentQuestion pg1
           in (pg2, caught ''Error loading question: '' effs)))"

definition loadMoreFromConcept_catch :: "js_error \<Rightarrow> quiz_page \<Rightarrow> quiz_page \<times> effect list" where
  "loadMoreFromConcept_catch err pg = (pg, [AlertError ''Error loading question: '' err])"

text \<open>The arrays of a parsed start body are new objects: they are put behind the arrays
  the store already holds, and each group refers to its array at the new address.\<close>

definition placed_at :: "nat \<Rightarrow> concept_group \<Rightarrow> concept_group" where
  "placed_at n g = g\<lparr>seen_questions := map_option (\<lambda>r. n + r) (seen_questions g)\<rparr>"

definition startQuiz_then :: "start_data \<Rightarrow> quiz_page \<Rightarrow> quiz_page \<times> effect list" where
  "startQuiz_then data pg =
     (case truthy (st_error data) of
        Some e \<Rightarrow> (pg, [Alert (''Error: '' @ e)])
      | None \<Rightarrow>
          (let pg1 = pg\<lparr>sessionId := st_session_id data,
                        protocol := st_protocol data,
                        conceptGroups :=
                          map (placed_at (length (seenArrays pg))) (st_concept_groups data),
                        seenArrays := seenArrays pg @ st_seen_arrays data,
                        currentIndex := 0,
                        totalConcepts := st_total_concepts data,
                        attemptNumber := 1,
                        scores := Map.empty,
                        quizSetup_hidden := True,
                        quizInterface_hidden := False\<rparr>;
               (pg2, effs) = displayCurrentQuestion pg1
           in (pg2, caught ''Error starting quiz: '' effs)))"

definition restartQuiz :: "quiz_page \<Rightarrow> quiz_page \<times> effect list" where
  "restartQuiz pg =
     (let (pg1, effs) = close_dragDropWindow pg
      in (pg1\<lparr>sessionId := None,
              protocol := None,
              conceptGroups := [],
              currentIndex := 0,
              attemptNumber := 1,
              scores := Map.empty,
              totalConcepts := 0,
              dragDropWindow := None,
              dragDropQuestions := dragDropQuestions pg1,
              quizSummary_hidden := True,
              quizSetup_hidden := False\<rparr>, effs))"

subsection \<open>The quiz page as an event system\<close>

text \<open>Clicks reach a button only while it is shown inside a shown section; the quiz page
  never sets a button's \<^verbatim>\<open>disabled\<close> property. The page template is not among the
  sources: the model takes the submit, try-again, more and next buttons to sit inside
  \<^verbatim>\<open>quiz-interface\<close> and the restart button inside \<^verbatim>\<open>quiz-summary\<close>, as
  \<^verbatim>\<open>startQuiz\<close>, \<^verbatim>\<open>showSummary\<close> and \<^verbatim>\<open>restartQuiz\<close> toggle those sections.
  The buttons that open the popup are rendered inside the answer area with an inline
  handler; the model does not track which of them is on the page. A response event
  carries what its callback closed over.\<close>

datatype quiz_event =
    QClickChoice nat
  | QClickSubmit
  | QClickTryAgain
  | QClickMoreConcept
  | QClickNextTopic
  | QClickRestart
  | QClickOpenPopup string bool
  | QSubmitResponse concept_group submit_data
  | QSubmitFailed string
  | QGroupQuestionResponse nat nat group_question_data
  | QGroupQuestionFailed string
  | QMessage "message option"

definition quiz_submit_available :: "quiz_page \<Rightarrow> bool" where
  "quiz_submit_available pg = (\<not> quizInterface_hidden pg \<and> \<not> submitBtn_hidden pg)"

definition quiz_clickChoice :: "nat \<Rightarrow> quiz_page \<Rightarrow> quiz_page" where
  "quiz_clickChoice k pg =
     (let is_checkbox =
            (case nth_opt (conceptGroups pg) (currentIndex pg) of
               None \<Rightarrow> False
             | Some currentGroup \<Rightarrow> isMultiAnswer (question currentGroup))
      in pg\<lparr>answerChoices := click_input is_checkbox k (answerChoices pg)\<rparr>)"

fun quiz_step :: "quiz_event \<Rightarrow> quiz_page \<Rightarrow> quiz_page \<times> effect list" where
  "quiz_step (QClickChoice k) pg = (quiz_clickChoice k pg, [])"
| "quiz_step QClickSubmit pg =
     (if quiz_submit_available pg then quiz_submitAnswer pg else (pg, []))"
| "quiz_step QClickTryAgain pg =
     (if quizInterface_hidden pg \<or> tryAgainBtn_hidden pg then (pg, [])
      else (quiz_tryAgain pg, []))"
| "quiz_step QClickMoreConcept pg =
     (if quizInterface_hidden pg \<or> moreConceptBtn_hidden pg then (pg, [])
      else loadMoreFromConcept pg)"
| "quiz_step QClickNextTopic pg =
     (if quizInterface_hidden pg \<or> nextTopicBtn_hidden pg then (pg, []) else nextTopic pg)"
| "quiz_step QClickRestart pg =
     (if quizSummary_hidden pg then (pg, []) else restartQuiz pg)"
| "quiz_step (QClickOpenPopup questionId blocked) pg =
     (if quizInterface_hidden pg then (pg, []) else openDragDropPopup questionId blocked pg)"
| "quiz_step (QSubmitResponse currentGroup data) pg = quiz_submitAnswer_then currentGroup data pg"
| "quiz_step (QSubmitFailed msg) pg = quiz_submitAnswer_catch (FetchFailed msg) pg"
| "quiz_step (QGroupQuestionResponse i seenQuestions data) pg =
     loadMoreFromConcept_then i seenQuestions data pg"
| "quiz_step (QGroupQuestionFailed msg) pg = loadMoreFromConcept_catch (FetchFailed msg) pg"
| "quiz_step (QMessage data) pg = (handleDragDropMessage data pg, [])"

fun quiz_run :: "quiz_event list \<Rightarrow> quiz_page \<Rightarrow> quiz_page \<times> effect list" where
  "quiz_run [] pg = (pg, [])"
| "quiz_run (e # es) pg =
     (let (pg1, effs1) = quiz_step e pg;
          (pg2, effs2) = quiz_run es pg1
      in (pg2, effs1 @ effs2))"

section \<open>Concrete pages and responses\<close>

definition sample_question :: "string \<Rightarrow> bool \<Rightarrow> string option \<Rightarrow> question" where
  "sample_question ident multi answer = \<lparr>
     q_id = ident, q_type = None, question_type = None, question_number = 1,
     question_text = ''Which statement is true?'', multi_answer = multi,
     correct_answer = answer,
     choices = [(''a'', ''first''), (''b'', ''second''), (''c'', ''third''), (''d'', ''fourth'')]\<rparr>"

definition blank_practice_page :: practice_page where
  "blank_practice_page = \<lparr>
     protocolSlug = Some ''ospf'', totalQuestions = 3, currentQuestion = None,
     questionNumber = 0, correctCount = 0, incorrectCount = 0, skippedCount = 0,
     p_attemptNumber = 0, disabledChoices = [], canReveal = False,
     answer_choices = [], feedback_section_hidden = True, feedback_status = ([], []),
     feedback_content = Plain [], ai_loading_hidden = True, submit_btn_hidden = False,
     submit_btn_disabled = True, skip_btn_hidden = False, try_again_btn_hidden = True,
     reveal_btn_hidden = True, next_btn_hidden = True\<rparr>"

definition blank_quiz_page :: quiz_page where
  "blank_quiz_page = \<lparr>
     sessionId = None, protocol = None, conceptGroups = [], currentIndex = 0,
     attemptNumber = 1, scores = Map.empty, totalConcepts = 0, dragDropWindow = None,
     dragDropQuestions = [], answerChoices = [], feedbackSection_hidden = True,
     feedbackStatus = [], submitBtn_hidden = False, tryAgainBtn_hidden = True,
     moreConceptBtn_hidden = True, nextTopicBtn_hidden = True, quizSetup_hidden = False,
     quizInterface_hidden = True, quizSummary_hidden = True, seenArrays = []\<rparr>"

definition sample_group :: "string \<Rightarrow> question \<Rightarrow> concept_group" where
  "sample_group gid q = \<lparr>group_id = gid, concept = ''concept of '' @ gid, question = q,
     seen_questions = None\<rparr>"

definition drag_drop_question :: "string \<Rightarrow> question" where
  "drag_drop_question ident =
     (sample_question ident False None)\<lparr>q_type := Some ''drag_drop''\<rparr>"

text \<open>A quiz session right after its start response has been handled.\<close>

definition started :: "concept_group list \<Rightarrow> quiz_page" where
  "started groups = fst (startQuiz_then
     \<lparr>st_error = None, st_session_id = Some ''s1'', st_protocol = Some ''ospf'',
      st_concept_groups = groups, st_seen_arrays = [],
      st_total_concepts = int (length groups)\<rparr>
     (quizState_init blank_quiz_page))"

definition completion :: "string \<Rightarrow> bool \<Rightarrow> message option" where
  "completion qid ok =
     Some \<lparr>m_type = ''dragDropComplete'', m_questionId = qid, m_correct = ok\<rparr>"

definition graded :: "bool \<Rightarrow> int \<Rightarrow> int \<Rightarrow> submit_data" where
  "graded ok attempt remaining = \<lparr>sb_error = None, sb_correct = ok,
     sb_explanation = ''Because.'', sb_hint = ''Think again.'', sb_attempt = attempt,
     sb_more_in_group = remaining\<rparr>"

definition two_letter_group :: concept_group where
  "two_letter_group = sample_group ''g1'' (sample_question ''q1'' True (Some ''a,c''))"

definition one_letter_group :: concept_group where
  "one_letter_group = sample_group ''g1'' (sample_question ''q1'' False (Some ''a''))"

definition interactive_group :: concept_group where
  "interactive_group = sample_group ''g1'' (drag_drop_question ''7'')"

definition next_group :: concept_group where
  "next_group = sample_group ''g2'' (sample_question ''q2'' False (Some ''a''))"

text \<open>The two bodies of the group-question endpoint: exhaustion, and another question.\<close>

definition exhausted :: group_question_data where
  "exhausted = \<lparr>gq_error = Some ''No more questions in this group'', gq_all_covered = True,
     gq_question = sample_question [] False None\<rparr>"

definition another :: "question \<Rightarrow> group_question_data" where
  "another q = \<lparr>gq_error = None, gq_all_covered = False, gq_question = q\<rparr>"

text \<open>A session whose single group arrives with the array \<open>[q5]\<close> as its
  \<^verbatim>\<open>seen_questions\<close>.\<close>

definition started_with_seen :: quiz_page where
  "started_with_seen = fst (startQuiz_then
     \<lparr>st_error = None, st_session_id = Some ''s1'', st_protocol = Some ''ospf'',
      st_concept_groups = [one_letter_group\<lparr>seen_questions := Some 0\<rparr>],
      st_seen_arrays = [[''q5'']], st_total_concepts = 1\<rparr>
     (quizState_init blank_quiz_page))"

text \<open>A reveal body that carries neither an error nor the correct answer.\<close>

definition explanation_without_answer :: explain_data where
  "explanation_without_answer = \<lparr>ed_error = None, ed_correct_answer = None,
     ed_correct_answer_text = [], ed_feedback = ''Because.''\<rparr>"

definition right_answer :: check_data where
  "right_answer = \<lparr>cd_error = None, cd_correct = True, cd_feedback = ''Yes.'',
     cd_correct_answer = Some ''a'', cd_attempt = 1, cd_can_reveal = False,
     cd_disabled_choices = None\<rparr>"

definition wrong_answer :: "int \<Rightarrow> bool \<Rightarrow> string list \<Rightarrow> check_data" where
  "wrong_answer n reveal letters = \<lparr>cd_error = None, cd_correct = False,
     cd_feedback = ''Think again.'', cd_correct_answer = None, cd_attempt = n,
     cd_can_reveal = reveal, cd_disabled_choices = Some letters\<rparr>"

definition explanation :: explain_data where
  "explanation = \<lparr>ed_error = None, ed_correct_answer = Some ''a'',
     ed_correct_answer_text = ''first'', ed_feedback = ''Because.''\<rparr>"

definition skipped_to :: "question \<Rightarrow> skip_data" where
  "skipped_to q = \<lparr>sd_error = None, sd_done = False, sd_next_question = Some q,
     sd_total_questions = 3\<rparr>"

text \<open>Scenario A of the specification as a run of events: choose and submit on the first
  question, a correct response, next; skip the second question; choose and submit on the
  third, an incorrect response that unlocks the reveal, reveal.\<close>

definition scenario_A ::
  "nat \<Rightarrow> nat \<Rightarrow> question \<Rightarrow> question \<Rightarrow> check_data \<Rightarrow> check_data \<Rightarrow> explain_data
     \<Rightarrow> practice_event list" where
  "scenario_A k1 k3 q2 q3 right wrong expl =
     [ClickChoice k1, ClickSubmit, CheckAnswerResponse right,
      ClickNext, NextResponse \<lparr>nd_error = None, nd_done = False, nd_question = Some q2\<rparr>,
      ClickSkip, SkipResponse (skipped_to q3),
      ClickChoice k3, ClickSubmit, CheckAnswerResponse wrong,
      ClickReveal, ExplainResponse expl]"

section \<open>Auxiliary facts\<close>

lemma filter_update_single:
  "k < length xs \<Longrightarrow> filter P xs = [] \<Longrightarrow> P y \<Longrightarrow> filter P (xs[k := y]) = [y]"
proof (induction xs arbitrary: k)
  case Nil
  then show ?case by simp
next
  case (Cons x xs)
  then show ?case by (cases k) (auto split: if_splits)
qed

lemma render_unchecked: "filter checked (enable_all (render_choices q)) = []"
  by (simp add: enable_all_def render_choices_def filter_empty_conv)

lemma click_fresh_inputs:
  assumes "nth_opt (choices q) k = Some (a, t)"
  shows "checked_values (click_input b k (enable_all (render_choices q))) = [a]"
proof -
  let ?xs = "enable_all (render_choices q)"
  let ?y = "\<lparr>ci_value = a, disabled = False, checked = True\<rparr>"
  from assms have k: "k < length (choices q)" and a: "fst (choices q ! k) = a"
    by (auto simp: nth_opt_def split: if_splits)
  then have len: "k < length ?xs"
    by (simp add: enable_all_def render_choices_def)
  have nth: "?xs ! k = \<lparr>ci_value = a, disabled = False, checked = False\<rparr>"
    using k a by (simp add: enable_all_def render_choices_def)
  have un: "filter checked (map (\<lambda>j. j\<lparr>checked := False\<rparr>) ?xs) = []"
    by (simp add: filter_empty_conv)
  show ?thesis
    using len nth filter_update_single[OF len render_unchecked, of ?y]
      filter_update_single[of k "map (\<lambda>j. j\<lparr>checked := False\<rparr>) ?xs" checked ?y] un
    by (simp add: click_input_def nth_opt_def checked_values_def)
qed

lemma click_fresh_changes:
  assumes "nth_opt (choices q) k = Some (a, t)"
  shows "click_input b k (enable_all (render_choices q)) \<noteq> enable_all (render_choices q)"
proof
  assume "click_input b k (enable_all (render_choices q)) = enable_all (render_choices q)"
  then have "checked_values (click_input b k (enable_all (render_choices q)))
      = checked_values (enable_all (render_choices q))"
    by simp
  then show False
    using click_fresh_inputs[OF assms, of b] render_unchecked[of q]
    by (simp add: checked_values_def)
qed

text \<open>Choosing one answer of a freshly displayed question and pressing submit sends that
  answer to the grader and locks the page.\<close>

lemma submit_fresh:
  assumes "nth_opt (choices q) k = Some (a, t)" "a \<noteq> []"
  shows "practice_step ClickSubmit (practice_clickChoice k (displayQuestion q pg)) =
     ((displayQuestion q pg)\<lparr>ai_loading_hidden := False,
          submit_btn_hidden := True, submit_btn_disabled := False,
          skip_btn_hidden := True, try_again_btn_hidden := True, reveal_btn_hidden := True,
          answer_choices :=
            disable_all (click_input (multi_answer q) k (enable_all (render_choices q)))\<rparr>,
      [Fetch (PracticeCheckAnswer (q_id q) a)])"
  using click_fresh_inputs[OF assms(1)] click_fresh_changes[OF assms(1)] assms(2)
  by (cases "multi_answer q")
     (simp_all add: practice_clickChoice_def displayQuestion_def practice_submit_available_def
        practice_submitAnswer_def normalized_answer_def truthy_def Let_def)

lemma submit_fresh_frame:
  assumes "nth_opt (choices q) k = Some (a, t)" "a \<noteq> []"
  shows "snd (practice_step ClickSubmit (practice_clickChoice k (displayQuestion q pg)))
           = [Fetch (PracticeCheckAnswer (q_id q) a)]"
    and "counters (fst (practice_step ClickSubmit (practice_clickChoice k (displayQuestion q pg))))
           = counters pg"
    and "currentQuestion (fst (practice_step ClickSubmit
           (practice_clickChoice k (displayQuestion q pg)))) = Some q"
  unfolding submit_fresh[OF assms] by (simp_all add: counters_def displayQuestion_def)

lemma counters_incorrect:
  "truthy (cd_error data) = None \<Longrightarrow> \<not> cd_correct data \<Longrightarrow>
   counters (practice_submitAnswer_then data pg) = counters pg"
  by (simp add: practice_submitAnswer_then_def counters_def showFeedback_def Let_def)

lemma incorrectCount_step_exact:
  "incorrectCount (fst (practice_step e p)) =
     incorrectCount p
       + (if \<exists>ed. e = ExplainResponse ed \<and> truthy (ed_error ed) = None then 1 else 0)"
  by (cases e)
     (auto simp: practice_clickChoice_def practice_submitAnswer_def practice_tryAgain_def
        revealAnswer_def skipQuestion_def nextQuestion_def practice_submitAnswer_then_def
        practice_submitAnswer_catch_def revealAnswer_then_def revealAnswer_catch_def
        skipQuestion_then_def skipQuestion_catch_def nextQuestion_then_def
        nextQuestion_catch_def showFeedback_def displayQuestion_def Let_def
        split: option.splits if_splits)

lemma reveal_outcomes:
  assumes "truthy (ed_error ed) = None"
  shows "ed_correct_answer ed = Some a \<Longrightarrow>
           feedback_status (revealAnswer_then ed p) = (''info'', ''Answer Revealed'')
           \<and> \<not> next_btn_hidden (revealAnswer_then ed p)"
    and "ed_correct_answer ed = None \<Longrightarrow>
           revealAnswer_then ed p =
             revealAnswer_catch TypeError
               (p\<lparr>ai_loading_hidden := True, incorrectCount := incorrectCount p + 1\<rparr>)"
  using assms
  by (simp_all add: revealAnswer_then_def showFeedback_def Let_def)

lemma wrong_then_skip:
  assumes "truthy (cd_error data) = None" "\<not> cd_correct data" "truthy (sd_error sk) = None"
      and "currentQuestion pg = Some q"
  shows "counters (fst (practice_run
            [CheckAnswerResponse data, ClickTryAgain, ClickSkip, SkipResponse sk] pg))
           = (correctCount pg, incorrectCount pg, skippedCount pg + 1)"
    and "Fetch (PracticeSkip (q_id q)) \<in> set (snd (practice_run
            [CheckAnswerResponse data, ClickTryAgain, ClickSkip, SkipResponse sk] pg))"
  using assms
  by (auto simp: practice_submitAnswer_then_def counters_def showFeedback_def Let_def
       practice_tryAgain_def skipQuestion_def skipQuestion_then_def displayQuestion_def
       navigateToSummary_def split: option.splits if_splits)

lemma practice_submit_locks:
  assumes "practice_submitAnswer pg = (pg1, [Fetch r])"
  shows "list_all disabled (answer_choices pg1)"
    and "\<not> practice_submit_available pg1"
    and "practice_step ClickSubmit pg1 = (pg1, [])"
  using assms
  by (auto simp: practice_submitAnswer_def practice_submit_available_def disable_all_def
        list_all_iff Let_def split: option.splits)

lemma split_commas_nonempty: "split_commas s \<noteq> []"
  by (induction s) (auto split: list.splits)

lemma sort_mset_eq: "mset xs = mset ys \<Longrightarrow> sort xs = sort (ys :: string list)"
  by (rule properties_for_sort) simp_all

lemma quiz_gate:
  assumes "nth_opt (conceptGroups pg) (currentIndex pg) = Some g"
      and "isMultiAnswer (question g)"
      and "correct_answer (question g) = Some ans"
  shows "quiz_submitAnswer pg =
      (if checked_values (answerChoices pg) = [] then (pg, [Alert ''Please select an answer''])
       else if length (checked_values (answerChoices pg)) \<noteq> length (split_commas ans)
       then (pg, [Alert (''Please select exactly ''
                         @ string_of_nat (length (split_commas ans)) @ '' answers'')])
       else (pg\<lparr>answerChoices := disable_all (answerChoices pg)\<rparr>,
             [Fetch (QuizSubmit (sessionId pg) (q_id (question g))
                (normalized_answer (checked_values (answerChoices pg)))
                (attemptNumber pg) (group_id g))]))"
  using assms by (simp add: quiz_submitAnswer_def numCorrect_def Let_def)

lemma practice_gate:
  assumes "currentQuestion ppg = Some q" "multi_answer q"
  shows "snd (practice_submitAnswer ppg) =
     (if normalized_answer (checked_values (answer_choices ppg)) = [] then []
      else [Fetch (PracticeCheckAnswer (q_id q)
              (normalized_answer (checked_values (answer_choices ppg))))])"
  using assms by (simp add: practice_submitAnswer_def truthy_def Let_def)

text \<open>The guarded write of \<^verbatim>\<open>submitAnswer\<close>: a correct answer never touches an outcome
  that is already stored.\<close>

lemma submit_keeps_recorded_outcome:
  "scores pg gid = Some r \<Longrightarrow> scores (fst (quiz_submitAnswer_then g data pg)) gid = Some r"
  by (auto simp: quiz_submitAnswer_then_def Let_def split: option.splits)




lemma disable_choice_locked:
  "list_all disabled xs \<Longrightarrow>
     list_all disabled (disable_choice l xs) \<and>
     map (\<lambda>i. i\<lparr>checked := False\<rparr>) (disable_choice l xs)
       = map (\<lambda>i. i\<lparr>checked := False\<rparr>) xs"
proof (induction xs)
  case Nil
  then show ?case by simp
next
  case (Cons x xs)
  then show ?case by (cases x) auto
qed

lemma applyDisabledChoices_locked:
  "list_all disabled xs \<Longrightarrow>
     list_all disabled (applyDisabledChoices ls xs) \<and>
     map (\<lambda>i. i\<lparr>checked := False\<rparr>) (applyDisabledChoices ls xs)
       = map (\<lambda>i. i\<lparr>checked := False\<rparr>) xs"
proof (induction ls arbitrary: xs)
  case Nil
  then show ?case by simp
next
  case (Cons l ls)
  from disable_choice_locked[OF Cons.prems, of l]
  have a: "list_all disabled (disable_choice l xs)"
    and b: "map (\<lambda>i. i\<lparr>checked := False\<rparr>) (disable_choice l xs)
              = map (\<lambda>i. i\<lparr>checked := False\<rparr>) xs"
    by simp_all
  from Cons.IH[OF a] b show ?case by simp
qed

lemma retry_inputs:
  "map (\<lambda>i. (if ci_value i \<notin> set dc then i\<lparr>disabled := False\<rparr> else i)\<lparr>checked := False\<rparr>)
       (applyDisabledChoices dc (disable_all xs))
   = map (\<lambda>i. i\<lparr>disabled := (ci_value i \<in> set dc), checked := False\<rparr>) xs"
proof -
  let ?u = "\<lambda>i. i\<lparr>checked := False\<rparr>"
  let ?h = "\<lambda>i. (if ci_value i \<notin> set dc then i\<lparr>disabled := False\<rparr> else i)"
  have all: "list_all disabled (disable_all xs)"
    by (simp add: disable_all_def list_all_iff)
  have "map (\<lambda>i. (?h i)\<lparr>checked := False\<rparr>) (applyDisabledChoices dc (disable_all xs))
      = map ?h (map ?u (applyDisabledChoices dc (disable_all xs)))"
    by (simp add: comp_def)
  also have "\<dots> = map ?h (map ?u (disable_all xs))"
    using applyDisabledChoices_locked[OF all, of dc] by simp
  also have "\<dots> = map (\<lambda>i. i\<lparr>disabled := (ci_value i \<in> set dc), checked := False\<rparr>) xs"
    by (simp add: disable_all_def comp_def)
  finally show ?thesis .
qed

lemma practice_retry:
  assumes "practice_submitAnswer pg = (pg1, [Fetch r])"
      and "truthy (cd_error data) = None" "\<not> cd_correct data"
  shows "answer_choices (practice_tryAgain (practice_submitAnswer_then data pg1)) =
      map (\<lambda>i. i\<lparr>disabled :=
                   (ci_value i \<in> set (case cd_disabled_choices data of None \<Rightarrow> [] | Some l \<Rightarrow> l)),
                 checked := False\<rparr>) (answer_choices pg)"
proof -
  from assms(1) have "answer_choices pg1 = disable_all (answer_choices pg)"
    by (auto simp: practice_submitAnswer_def Let_def split: option.splits)
  then show ?thesis
    using assms(2,3)
      retry_inputs[of "case cd_disabled_choices data of None \<Rightarrow> [] | Some l \<Rightarrow> l"
        "answer_choices pg"]
    by (simp add: practice_tryAgain_def practice_submitAnswer_then_def showFeedback_def Let_def)
qed

lemma display_enabled:
  "disabledChoices (displayQuestion q pg) = [] \<and>
   list_all (\<lambda>i. \<not> disabled i) (answer_choices (displayQuestion q pg))"
  by (simp add: displayQuestion_def enable_all_def render_choices_def list_all_iff)

lemma quiz_display_enabled:
  assumes "nth_opt (conceptGroups pg) (currentIndex pg) = Some g"
      and "\<not> is_drag_drop (question g)" "numCorrect (question g) = Inr n"
  shows "answerChoices (fst (displayCurrentQuestion pg)) = render_choices (question g)"
    and "list_all (\<lambda>i. \<not> disabled i) (render_choices (question g))"
  using assms by (simp_all add: displayCurrentQuestion_def render_choices_def list_all_iff)

lemma nextTopic_index: "currentIndex (fst (nextTopic pg)) = currentIndex pg + 1"
  by (auto simp: nextTopic_def close_dragDropWindow_def showSummary_def
        displayCurrentQuestion_def displayDragDropQuestion_def Let_def
        split: option.splits prod.splits sum.splits if_splits)

lemma display_frame:
  "conceptGroups (fst (displayCurrentQuestion pg)) = conceptGroups pg
   \<and> currentIndex (fst (displayCurrentQuestion pg)) = currentIndex pg
   \<and> sessionId (fst (displayCurrentQuestion pg)) = sessionId pg"
  by (auto simp: close_dragDropWindow_def showSummary_def displayCurrentQuestion_def
        displayDragDropQuestion_def Let_def split: option.splits prod.splits sum.splits if_splits)

lemma array_at_append: "array_at (store @ [[]]) (length store) = []"
  by (simp add: array_at_def nth_opt_def)

lemma array_at_push:
  "r < length store \<Longrightarrow> array_at (push_at r x store) r = array_at store r @ [x]"
  by (simp add: array_at_def push_at_def update_at_def nth_opt_def)

lemma more_request:
  assumes "nth_opt (conceptGroups pg) (currentIndex pg) = Some g"
  shows "snd (loadMoreFromConcept pg) =
     [Fetch (QuizGroupQuestion (group_id g) (sessionId pg) (join_commas (recorded_seen pg g)))]"
  using assms
  by (simp add: loadMoreFromConcept_def recorded_seen_def captured_seenQuestions_def
        array_at_append Let_def split: option.splits)

lemma more_request_frame:
  assumes "nth_opt (conceptGroups pg) (currentIndex pg) = Some g"
  shows "conceptGroups (fst (loadMoreFromConcept pg)) = conceptGroups pg"
    and "currentIndex (fst (loadMoreFromConcept pg)) = currentIndex pg"
    and "sessionId (fst (loadMoreFromConcept pg)) = sessionId pg"
    and "seen_in_store pg g \<Longrightarrow>
           captured_seenQuestions pg g < length (seenArrays (fst (loadMoreFromConcept pg)))"
    and "seen_in_store pg g \<Longrightarrow>
           array_at (seenArrays (fst (loadMoreFromConcept pg))) (captured_seenQuestions pg g)
             = recorded_seen pg g"
  using assms
  by (auto simp: loadMoreFromConcept_def captured_seenQuestions_def seen_in_store_def
        recorded_seen_def array_at_append Let_def split: option.splits)

lemma more_exhausted:
  assumes "truthy (gq_error data) = Some e" "gq_all_covered data"
  shows "currentIndex (fst (loadMoreFromConcept_then i r data pg)) = currentIndex pg + 1"
    and "snd (loadMoreFromConcept_then i r data pg) =
           Alert ''You have answered all questions in this concept group!''
           # caught ''Error loading question: '' (snd (nextTopic pg))"
  using assms nextTopic_index[of pg]
  by (simp_all add: loadMoreFromConcept_then_def case_prod_beta)

lemma display_frame_store:
  "seenArrays (fst (displayCurrentQuestion pg)) = seenArrays pg"
  by (auto simp: close_dragDropWindow_def showSummary_def displayCurrentQuestion_def
        displayDragDropQuestion_def Let_def split: option.splits prod.splits sum.splits if_splits)

lemma more_fresh:
  assumes "nth_opt (conceptGroups pg) (currentIndex pg) = Some g"
      and "truthy (gq_error data) = None" "r < length (seenArrays pg)"
  shows "snd (loadMoreFromConcept
                (fst (loadMoreFromConcept_then (currentIndex pg) r data pg))) =
       [Fetch (QuizGroupQuestion (group_id g) (sessionId pg)
          (join_commas (array_at (seenArrays pg) r @ [q_id (gq_question data)])))]"
proof -
  let ?pg1 = "pg\<lparr>conceptGroups := update_at (currentIndex pg)
                (\<lambda>currentGroup. currentGroup\<lparr>question := gq_question data,
                     seen_questions := Some r\<rparr>)
                (conceptGroups pg),
              seenArrays := push_at r (q_id (gq_question data)) (seenArrays pg),
              answerChoices := enable_all (answerChoices pg)\<rparr>"
  let ?pg2 = "fst (displayCurrentQuestion ?pg1)"
  have eq: "fst (loadMoreFromConcept_then (currentIndex pg) r data pg) = ?pg2"
    using assms(2) by (simp add: loadMoreFromConcept_then_def Let_def case_prod_beta)
  have g': "nth_opt (conceptGroups ?pg1) (currentIndex ?pg1)
      = Some (g\<lparr>question := gq_question data, seen_questions := Some r\<rparr>)"
    using assms(1) by (auto simp: update_at_def nth_opt_def split: if_splits)
  have g2: "nth_opt (conceptGroups ?pg2) (currentIndex ?pg2)
      = Some (g\<lparr>question := gq_question data, seen_questions := Some r\<rparr>)"
    using g' display_frame[of ?pg1] by simp
  have rec: "recorded_seen ?pg2 (g\<lparr>question := gq_question data, seen_questions := Some r\<rparr>)
      = array_at (seenArrays pg) r @ [q_id (gq_question data)]"
    using assms(3) by (simp add: recorded_seen_def display_frame_store array_at_push)
  show ?thesis
    unfolding eq using more_request[OF g2] rec display_frame[of ?pg1] by simp
qed

lemma more_roundtrip:
  assumes "nth_opt (conceptGroups pg) (currentIndex pg) = Some g"
      and "truthy (gq_error data) = None" "seen_in_store pg g"
  shows "snd (loadMoreFromConcept
                (fst (loadMoreFromConcept_then (currentIndex pg) (captured_seenQuestions pg g)
                        data (fst (loadMoreFromConcept pg))))) =
       [Fetch (QuizGroupQuestion (group_id g) (sessionId pg)
          (join_commas (recorded_seen pg g @ [q_id (gq_question data)])))]"
proof -
  let ?pg1 = "fst (loadMoreFromConcept pg)"
  have g1: "nth_opt (conceptGroups ?pg1) (currentIndex ?pg1) = Some g"
    using assms(1) more_request_frame(1,2)[OF assms(1)] by simp
  have r: "captured_seenQuestions pg g < length (seenArrays ?pg1)"
    using more_request_frame(4)[OF assms(1,3)] .
  show ?thesis
    using more_fresh[OF g1 assms(2) r] more_request_frame(2,3,5)[OF assms(1)] assms(3)
    by simp
qed

lemmas sample_defs = started_def quizState_init_def startQuiz_then_def placed_at_def truthy_def
  displayCurrentQuestion_def
  nth_opt_def sample_group_def drag_drop_question_def sample_question_def is_drag_drop_def
  displayDragDropQuestion_def blank_quiz_page_def caught_def completion_def graded_def
  numCorrect_def isMultiAnswer_def render_choices_def

lemmas group_defs = two_letter_group_def one_letter_group_def interactive_group_def
  next_group_def

lemmas quiz_click_defs = quiz_clickChoice_def click_input_def quiz_submit_available_def
  quiz_submitAnswer_def checked_values_def disable_all_def normalized_answer_def Let_def

lemmas more_defs = loadMoreFromConcept_def loadMoreFromConcept_then_def
  captured_seenQuestions_def array_at_def push_at_def update_at_def enable_all_def
  quiz_submitAnswer_then_def

text \<open>Two "more" requests in flight. On a group without an array each request creates
  its own: the second response puts its array on the group and the id the first response
  brought is excluded no more. On a group with an array both callbacks push to that one
  array.\<close>

lemma overlapping_requests_new_arrays:
  "snd (loadMoreFromConcept (fst (quiz_run
         [QClickChoice 0, QClickSubmit,
          QSubmitResponse one_letter_group (graded True 1 2),
          QClickMoreConcept, QClickMoreConcept,
          QGroupQuestionResponse 0 0 (another (sample_question ''q5'' False (Some ''b''))),
          QGroupQuestionResponse 0 1 (another (sample_question ''q6'' False (Some ''b'')))]
         (started [one_letter_group]))))
     = [Fetch (QuizGroupQuestion ''g1'' (Some ''s1'') ''q6'')]"
  by (simp add: sample_defs group_defs quiz_click_defs more_defs another_def)

lemma overlapping_requests_shared_array:
  "snd (loadMoreFromConcept (fst (quiz_run
         [QClickChoice 0, QClickSubmit,
          QSubmitResponse one_letter_group (graded True 1 2),
          QClickMoreConcept, QClickMoreConcept,
          QGroupQuestionResponse 0 0 (another (sample_question ''q6'' False (Some ''b''))),
          QGroupQuestionResponse 0 0 (another (sample_question ''q7'' False (Some ''b'')))]
         started_with_seen)))
     = [Fetch (QuizGroupQuestion ''g1'' (Some ''s1'') ''q5,q6,q7'')]"
  by (simp add: started_with_seen_def sample_defs group_defs quiz_click_defs more_defs another_def)

section \<open>The claims\<close>

text \<open>
  C1 (counterexample). The claim says that every multi-select submission whose number of
  selected choices differs from the correct answer's letter count is rejected locally
  without a network request. On the practice page a question whose correct answer has two
  letters is submitted with one choice selected, and the check-answer request is sent.
\<close>

theorem practice_sends_mismatched_count:
  "numCorrect (sample_question ''q1'' True (Some ''a,c'')) = Inr 2
   \<and> checked_values (answer_choices (fst (practice_run [ClickChoice 0]
        (displayQuestion (sample_question ''q1'' True (Some ''a,c'')) blank_practice_page))))
       = [''a'']
   \<and> snd (practice_run [ClickChoice 0, ClickSubmit]
        (displayQuestion (sample_question ''q1'' True (Some ''a,c'')) blank_practice_page))
       = [Fetch (PracticeCheckAnswer ''q1'' ''a'')]"
  by (simp add: sample_defs displayQuestion_def blank_practice_page_def practice_clickChoice_def
        click_input_def enable_all_def checked_values_def practice_submit_available_def
        practice_submitAnswer_def normalized_answer_def Let_def)

text \<open>
  C1 (amended). On the quiz page, for a multi-select question whose correct answer is
  \<open>ans\<close>: a submission with nothing selected is rejected locally with the alert
  "Please select an answer"; one whose count differs from the number of letters of \<open>ans\<close>
  is rejected locally with the alert "Please select exactly N answers"; neither sends a
  request nor changes the page; a submission with exactly N selected locks the inputs and
  sends the submit request. On the practice page there is no count check: a multi-select
  submission is dropped (no request) only when the joined selection is empty, and every
  other selection is sent to the check-answer endpoint.
\<close>

theorem selection_count_gate:
  assumes "nth_opt (conceptGroups pg) (currentIndex pg) = Some g"
      and "isMultiAnswer (question g)"
      and "correct_answer (question g) = Some ans"
      and "currentQuestion ppg = Some q" "multi_answer q"
  shows "quiz_submitAnswer pg =
      (if checked_values (answerChoices pg) = [] then (pg, [Alert ''Please select an answer''])
       else if length (checked_values (answerChoices pg)) \<noteq> length (split_commas ans)
       then (pg, [Alert (''Please select exactly ''
                         @ string_of_nat (length (split_commas ans)) @ '' answers'')])
       else (pg\<lparr>answerChoices := disable_all (answerChoices pg)\<rparr>,
             [Fetch (QuizSubmit (sessionId pg) (q_id (question g))
                (normalized_answer (checked_values (answerChoices pg)))
                (attemptNumber pg) (group_id g))]))
    \<and> snd (practice_submitAnswer ppg) =
      (if normalized_answer (checked_values (answer_choices ppg)) = [] then []
       else [Fetch (PracticeCheckAnswer (q_id q)
               (normalized_answer (checked_values (answer_choices ppg))))])"
  using quiz_gate[OF assms(1,2,3)] practice_gate[OF assms(4,5)] by simp

theorem selection_count_gate_witness:
  "nth_opt (conceptGroups (fst (quiz_run [QClickChoice 0] (started [two_letter_group]))))
     (currentIndex (fst (quiz_run [QClickChoice 0] (started [two_letter_group]))))
     = Some two_letter_group
   \<and> isMultiAnswer (question two_letter_group)
   \<and> correct_answer (question two_letter_group) = Some ''a,c''
   \<and> snd (quiz_submitAnswer (fst (quiz_run [QClickChoice 0] (started [two_letter_group]))))
       = [Alert ''Please select exactly 2 answers'']
   \<and> snd (practice_submitAnswer (fst (practice_run [ClickChoice 2, ClickChoice 0]
        (displayQuestion (sample_question ''q1'' True None) blank_practice_page))))
       = [Fetch (PracticeCheckAnswer ''q1'' ''a,c'')]"
  using selection_count_gate[of "fst (quiz_run [QClickChoice 0] (started [two_letter_group]))"
      two_letter_group "''a,c''"
      "fst (practice_run [ClickChoice 2, ClickChoice 0]
        (displayQuestion (sample_question ''q1'' True None) blank_practice_page))"
      "sample_question ''q1'' True None"]
  by (simp add: sample_defs group_defs quiz_click_defs string_of_nat.simps digit_char_def
        displayQuestion_def blank_practice_page_def practice_clickChoice_def enable_all_def)

text \<open>
  C2 (the code at the failing input). The claim says that an outcome record, once stored
  for a group, is never replaced by a later correct resolution, drag-and-drop completions
  included. \<^verbatim>\<open>submitAnswer\<close> guards its write (lemma \<open>submit_keeps_recorded_outcome\<close>);
  \<^verbatim>\<open>handleDragDropMessage\<close> writes without the guard. For an interactive group: the
  popup reports success (the record is first-attempt, 1 attempt), then reports a close,
  which raises the attempt number and offers "Try Again"; the second success replaces the
  record by one with 2 attempts and no first-attempt credit.
\<close>

theorem dragdrop_completion_overwrites_outcome:
  "scores (fst (quiz_run
       [QClickOpenPopup ''7'' False, QMessage (completion ''7'' True)]
       (started [interactive_group]))) ''g1''
     = Some \<lparr>firstAttemptCorrect = True, attempts = 1, score_concept = ''concept of g1''\<rparr>
   \<and> scores (fst (quiz_run
       [QClickOpenPopup ''7'' False, QMessage (completion ''7'' True),
        QMessage (completion ''7'' False),
        QClickOpenPopup ''7'' False, QMessage (completion ''7'' True)]
       (started [interactive_group]))) ''g1''
     = Some \<lparr>firstAttemptCorrect = False, attempts = 2, score_concept = ''concept of g1''\<rparr>"
  by (simp add: sample_defs group_defs handleDragDropMessage_def openDragDropPopup_def
        close_dragDropWindow_def)




text \<open>
  C4 (counterexample). The claim says that in either session variant a choice disabled
  after a wrong submission stays disabled through every retry. On the quiz page the wrong
  choice b is disabled while the answer is graded and after the incorrect response;
  "Try Again" enables it again.
\<close>

theorem quiz_retry_enables_wrong_choice:
  "answerChoices (fst (quiz_run [QClickChoice 1, QClickSubmit,
       QSubmitResponse one_letter_group (graded False 1 0)] (started [one_letter_group]))) ! 1
     = \<lparr>ci_value = ''b'', disabled = True, checked = True\<rparr>
   \<and> answerChoices (fst (quiz_run [QClickChoice 1, QClickSubmit,
       QSubmitResponse one_letter_group (graded False 1 0), QClickTryAgain]
       (started [one_letter_group]))) ! 1
     = \<lparr>ci_value = ''b'', disabled = False, checked = False\<rparr>"
  by (simp add: sample_defs group_defs quiz_click_defs quiz_submitAnswer_then_def
        quiz_tryAgain_def)

text \<open>
  C4 (amended). On the practice page, after a submission, an incorrect response and
  "Try Again", a choice is disabled exactly when the response's \<^verbatim>\<open>disabled_choices\<close>
  lists it (none when the list is missing), and every choice is unchecked; displaying a
  question empties the list and renders every choice enabled. On the quiz page no choice
  stays disabled: "Try Again" enables and unchecks every choice, and a displayed
  multiple-choice question has every choice enabled.
\<close>

theorem disabled_choices_across_retries:
  assumes "practice_submitAnswer pg = (pg1, [Fetch r])"
      and "truthy (cd_error data) = None" "\<not> cd_correct data"
      and "nth_opt (conceptGroups qpg) (currentIndex qpg) = Some g"
      and "\<not> is_drag_drop (question g)" "numCorrect (question g) = Inr n"
  shows "answer_choices (practice_tryAgain (practice_submitAnswer_then data pg1)) =
      map (\<lambda>i. i\<lparr>disabled :=
                   (ci_value i \<in> set (case cd_disabled_choices data of None \<Rightarrow> [] | Some l \<Rightarrow> l)),
                 checked := False\<rparr>) (answer_choices pg)
    \<and> disabledChoices (displayQuestion q pg') = []
    \<and> list_all (\<lambda>i. \<not> disabled i) (answer_choices (displayQuestion q pg'))
    \<and> answerChoices (quiz_tryAgain qpg') =
        map (\<lambda>i. i\<lparr>disabled := False, checked := False\<rparr>) (answerChoices qpg')
    \<and> list_all (\<lambda>i. \<not> disabled i) (answerChoices (fst (displayCurrentQuestion qpg)))"
  using practice_retry[OF assms(1,2,3)] display_enabled[of q pg']
    quiz_display_enabled[OF assms(4,5,6)]
  by (simp add: quiz_tryAgain_def)

theorem disabled_choices_across_retries_witness:
  "practice_submitAnswer (practice_clickChoice 1
       (displayQuestion (sample_question ''q1'' False None) blank_practice_page))
     = (fst (practice_submitAnswer (practice_clickChoice 1
          (displayQuestion (sample_question ''q1'' False None) blank_practice_page))),
        [Fetch (PracticeCheckAnswer ''q1'' ''b'')])
   \<and> truthy (cd_error (wrong_answer 1 False [''b''])) = None
   \<and> \<not> cd_correct (wrong_answer 1 False [''b''])
   \<and> nth_opt (conceptGroups (started [one_letter_group])) (currentIndex (started [one_letter_group]))
       = Some one_letter_group
   \<and> \<not> is_drag_drop (question one_letter_group)
   \<and> numCorrect (question one_letter_group) = Inr 1
   \<and> map (\<lambda>i. (ci_value i, disabled i))
        (answer_choices (practice_tryAgain (practice_submitAnswer_then (wrong_answer 1 False [''b''])
           (fst (practice_submitAnswer (practice_clickChoice 1
              (displayQuestion (sample_question ''q1'' False None) blank_practice_page)))))))
       = [(''a'', False), (''b'', True), (''c'', False), (''d'', False)]"
  using disabled_choices_across_retries[of
      "practice_clickChoice 1 (displayQuestion (sample_question ''q1'' False None) blank_practice_page)"
      "fst (practice_submitAnswer (practice_clickChoice 1
          (displayQuestion (sample_question ''q1'' False None) blank_practice_page)))"
      "PracticeCheckAnswer ''q1'' ''b''" "wrong_answer 1 False [''b'']"
      "started [one_letter_group]" one_letter_group 1]
  by (simp add: sample_defs group_defs wrong_answer_def displayQuestion_def
        blank_practice_page_def practice_clickChoice_def click_input_def enable_all_def
        checked_values_def practice_submitAnswer_def normalized_answer_def Let_def)

text \<open>
  C5. In a linear session where the student answers the first question correctly on the
  first try, skips the second, and answers the third wrong and then reveals, the counters
  of the page end at correct = 1, incorrect = 1 (the reveal increments the incorrect
  counter) and skipped = 1. The run starts from the initial \<^verbatim>\<open>practiceState\<close> with the
  first question displayed; the answers chosen are the \<open>k1\<close>-th choice of the first and the
  \<open>k3\<close>-th choice of the third question. The theorem also lists the requests the page
  sends on the way.
\<close>

theorem scenario_A_counters:
  assumes "nth_opt (choices q1) k1 = Some (a1, t1)" "a1 \<noteq> []"
      and "nth_opt (choices q3) k3 = Some (a3, t3)" "a3 \<noteq> []"
      and "truthy (cd_error right) = None" "cd_correct right"
          "cd_correct_answer right = Some ca1"
      and "truthy (cd_error wrong) = None" "\<not> cd_correct wrong" "cd_can_reveal wrong"
      and "truthy (ed_error expl) = None" "ed_correct_answer expl = Some ca3"
  shows "counters (fst (practice_run (scenario_A k1 k3 q2 q3 right wrong expl)
            (displayQuestion q1 (practiceState_init page)))) = (1, 1, 1)
       \<and> snd (practice_run (scenario_A k1 k3 q2 q3 right wrong expl)
            (displayQuestion q1 (practiceState_init page))) =
          [Fetch (PracticeCheckAnswer (q_id q1) a1), Fetch PracticeNext,
           Fetch (PracticeSkip (q_id q2)), Fetch (PracticeCheckAnswer (q_id q3) a3),
           Fetch (PracticeExplain (q_id q3))]"
proof -
  let ?p0 = "displayQuestion q1 (practiceState_init page)"
  define p1 where "p1 = fst (practice_step ClickSubmit (practice_clickChoice k1 ?p0))"
  have e1: "practice_step ClickSubmit (practice_clickChoice k1 ?p0)
      = (p1, [Fetch (PracticeCheckAnswer (q_id q1) a1)])"
    unfolding p1_def using submit_fresh_frame(1)[OF assms(1,2), of "practiceState_init page"]
    by (simp add: prod_eq_iff)
  have c1: "counters p1 = (0, 0, 0)"
    unfolding p1_def submit_fresh_frame(2)[OF assms(1,2)]
    by (simp add: counters_def practiceState_init_def)
  define p2 where "p2 = practice_submitAnswer_then right p1"
  have c2: "counters p2 = (1, 0, 0)" and n2: "\<not> next_btn_hidden p2"
    using c1 assms(5,6,7)
    by (simp_all add: p2_def practice_submitAnswer_then_def counters_def showFeedback_def Let_def)
  define p3 where "p3 = displayQuestion q2 p2"
  have c3: "counters p3 = (1, 0, 0)" and s3: "\<not> skip_btn_hidden p3"
    and q3: "currentQuestion p3 = Some q2"
    using c2 by (simp_all add: p3_def displayQuestion_def counters_def)
  define p4 where "p4 = p3\<lparr>skippedCount := skippedCount p3 + 1, totalQuestions := 3\<rparr>"
  have c4: "counters p4 = (1, 0, 1)"
    using c3 by (simp add: counters_def p4_def)
  define p5 where
    "p5 = fst (practice_step ClickSubmit (practice_clickChoice k3 (displayQuestion q3 p4)))"
  have e5: "practice_step ClickSubmit (practice_clickChoice k3 (displayQuestion q3 p4))
      = (p5, [Fetch (PracticeCheckAnswer (q_id q3) a3)])"
    unfolding p5_def using submit_fresh_frame(1)[OF assms(3,4), of p4]
    by (simp add: prod_eq_iff)
  have c5: "counters p5 = (1, 0, 1)" and q5: "currentQuestion p5 = Some q3"
    unfolding p5_def submit_fresh_frame(2,3)[OF assms(3,4)] using c4 by simp_all
  define p6 where "p6 = practice_submitAnswer_then wrong p5"
  have c6: "counters p6 = (1, 0, 1)" and r6: "\<not> reveal_btn_hidden p6"
    and q6: "currentQuestion p6 = Some q3"
    using c5 q5 assms(8,9,10)
    by (simp_all add: p6_def practice_submitAnswer_then_def counters_def showFeedback_def Let_def)
  define p7 where "p7 = fst (revealAnswer p6)"
  have e7: "revealAnswer p6 = (p7, [Fetch (PracticeExplain (q_id q3))])"
    and c7: "counters p7 = (1, 0, 1)"
    using q6 c6 by (simp_all add: p7_def revealAnswer_def Let_def counters_def)
  have c8: "counters (revealAnswer_then expl p7) = (1, 1, 1)"
    using c7 assms(11,12)
    by (simp add: revealAnswer_then_def counters_def showFeedback_def Let_def)
  have run: "practice_run (scenario_A k1 k3 q2 q3 right wrong expl) ?p0 =
      (revealAnswer_then expl p7,
       [Fetch (PracticeCheckAnswer (q_id q1) a1), Fetch PracticeNext,
        Fetch (PracticeSkip (q_id q2)), Fetch (PracticeCheckAnswer (q_id q3) a3),
        Fetch (PracticeExplain (q_id q3))])"
    unfolding scenario_A_def skipped_to_def
    using e1 e5 e7 n2 s3 q3 r6
    by (simp add: p2_def[symmetric] nextQuestion_def nextQuestion_then_def truthy_def
          p3_def[symmetric] skipQuestion_def skipQuestion_then_def p4_def[symmetric]
          p6_def[symmetric] Let_def del: practice_step.simps(2))
  show ?thesis using run c8 by simp
qed

theorem scenario_A_counters_witness:
  "nth_opt (choices (sample_question ''q1'' False None)) 0 = Some (''a'', ''first'')
   \<and> nth_opt (choices (sample_question ''q3'' False None)) 1 = Some (''b'', ''second'')
   \<and> truthy (cd_error right_answer) = None \<and> cd_correct right_answer
   \<and> truthy (cd_error (wrong_answer 1 True [''b''])) = None
   \<and> \<not> cd_correct (wrong_answer 1 True [''b'']) \<and> cd_can_reveal (wrong_answer 1 True [''b''])
   \<and> truthy (ed_error explanation) = None
   \<and> counters (fst (practice_run
        (scenario_A 0 1 (sample_question ''q2'' False None) (sample_question ''q3'' False None)
           right_answer (wrong_answer 1 True [''b'']) explanation)
        (displayQuestion (sample_question ''q1'' False None)
           (practiceState_init blank_practice_page)))) = (1, 1, 1)"
  using scenario_A_counters[of "sample_question ''q1'' False None" 0 "''a''" "''first''"
      "sample_question ''q3'' False None" 1 "''b''" "''second''" right_answer "''a''"
      "wrong_answer 1 True [''b'']" explanation "''a''" "sample_question ''q2'' False None"
      blank_practice_page]
  by (simp add: sample_question_def nth_opt_def truthy_def right_answer_def wrong_answer_def
        explanation_def)

text \<open>
  C6 (counterexample). The claim says that every "more from this concept" request sends
  the ids of the questions already seen. For a group as the start response delivers it
  (no \<^verbatim>\<open>seen_questions\<close>), the student answers the representative question q1 and asks
  for more: the exclusion list of the request is empty, although q1 has been shown.
\<close>

theorem first_more_request_excludes_nothing:
  "q_id (question (conceptGroups (started [one_letter_group]) ! 0)) = ''q1''
   \<and> snd (quiz_run [QClickChoice 0, QClickSubmit,
         QSubmitResponse one_letter_group (graded True 1 2), QClickMoreConcept]
        (started [one_letter_group]))
      = [Fetch (QuizSubmit (Some ''s1'') ''q1'' ''a'' 1 ''g1''),
         Fetch (QuizGroupQuestion ''g1'' (Some ''s1'') [])]"
  by (simp add: sample_defs group_defs quiz_click_defs more_defs)

text \<open>
  C6 (amended). A "more from this concept" request sends what the current group's
  recorded \<^verbatim>\<open>seen_questions\<close> array holds (nothing when the group has none) as its
  exclusion list. When the response reports exhaustion (an error with
  \<^verbatim>\<open>all_covered\<close>), the cursor moves to the next group and the user is shown the
  notice that the group is finished, not the error. When the response brings a question,
  the array \<open>r\<close> that its request read or created becomes the group's recorded array with
  the question's id appended, so the group's next request excludes what \<open>r\<close> held and
  that id; for a response handled right after its own request this is the recorded list
  of before and the new id.
\<close>

theorem more_from_concept:
  assumes "nth_opt (conceptGroups pg) (currentIndex pg) = Some g"
      and "seen_in_store pg g"
      and "truthy (gq_error none_left) = Some e" "gq_all_covered none_left"
      and "truthy (gq_error fresh) = None"
      and "r < length (seenArrays pg)"
  shows "snd (loadMoreFromConcept pg) =
           [Fetch (QuizGroupQuestion (group_id g) (sessionId pg)
              (join_commas (recorded_seen pg g)))]
    \<and> currentIndex (fst (loadMoreFromConcept_then i r none_left pg)) = currentIndex pg + 1
    \<and> snd (loadMoreFromConcept_then i r none_left pg) =
           Alert ''You have answered all questions in this concept group!''
           # caught ''Error loading question: '' (snd (nextTopic pg))
    \<and> snd (loadMoreFromConcept
              (fst (loadMoreFromConcept_then (currentIndex pg) r fresh pg))) =
           [Fetch (QuizGroupQuestion (group_id g) (sessionId pg)
              (join_commas (array_at (seenArrays pg) r @ [q_id (gq_question fresh)])))]
    \<and> snd (loadMoreFromConcept
              (fst (loadMoreFromConcept_then (currentIndex pg) (captured_seenQuestions pg g)
                      fresh (fst (loadMoreFromConcept pg))))) =
           [Fetch (QuizGroupQuestion (group_id g) (sessionId pg)
              (join_commas (recorded_seen pg g @ [q_id (gq_question fresh)])))]"
  using more_request[OF assms(1)] more_exhausted[OF assms(3,4)]
    more_fresh[OF assms(1,5,6)] more_roundtrip[OF assms(1,5,2)]
  by simp

theorem more_from_concept_witness:
  "nth_opt (conceptGroups started_with_seen) (currentIndex started_with_seen)
       = Some (one_letter_group\<lparr>seen_questions := Some 0\<rparr>)
   \<and> seen_in_store started_with_seen (one_letter_group\<lparr>seen_questions := Some 0\<rparr>)
   \<and> truthy (gq_error exhausted) = Some ''No more questions in this group''
   \<and> gq_all_covered exhausted
   \<and> truthy (gq_error (another (sample_question ''q6'' False (Some ''b'')))) = None
   \<and> 0 < length (seenArrays started_with_seen)
   \<and> snd (loadMoreFromConcept started_with_seen)
       = [Fetch (QuizGroupQuestion ''g1'' (Some ''s1'') ''q5'')]
   \<and> currentIndex (fst (loadMoreFromConcept_then 0 0 exhausted started_with_seen)) = 1
   \<and> snd (loadMoreFromConcept_then 0 0 exhausted started_with_seen)
       = [Alert ''You have answered all questions in this concept group!'']
   \<and> snd (loadMoreFromConcept (fst (loadMoreFromConcept_then 0 0
        (another (sample_question ''q6'' False (Some ''b'')))
        (fst (loadMoreFromConcept started_with_seen)))))
       = [Fetch (QuizGroupQuestion ''g1'' (Some ''s1'') ''q5,q6'')]"
  using more_from_concept[of started_with_seen "one_letter_group\<lparr>seen_questions := Some 0\<rparr>"
      exhausted "''No more questions in this group''"
      "another (sample_question ''q6'' False (Some ''b''))" 0 0]
  by (simp add: started_with_seen_def sample_defs group_defs exhausted_def another_def
        nextTopic_def close_dragDropWindow_def showSummary_def more_defs seen_in_store_def
        recorded_seen_def)

text \<open>
  C7 (the code at the failing input). The claim says that while a check-answer request is
  in flight the submission control is unavailable, so that no second request can start.
  The practice page hides its submit button when it sends the request (lemma
  \<open>practice_submit_locks\<close>). The quiz page only disables the inputs: its submit button
  stays shown until the response is handled, the checked input still counts as checked,
  and a second click sends the same request again.
\<close>

theorem quiz_double_submit:
  "quiz_submit_available (fst (quiz_run [QClickChoice 1, QClickSubmit] (started [one_letter_group])))
   \<and> snd (quiz_run [QClickChoice 1, QClickSubmit, QClickSubmit] (started [one_letter_group]))
     = [Fetch (QuizSubmit (Some ''s1'') ''q1'' ''b'' 1 ''g1''),
        Fetch (QuizSubmit (Some ''s1'') ''q1'' ''b'' 1 ''g1'')]"
  by (simp add: sample_defs group_defs quiz_click_defs)

text \<open>
  C8. For a multi-select question, let \<open>letters\<close> list the checked choices in any order
  (the order of the clicks, say). The value submitted is those letters sorted in the
  lexicographic order of strings and joined by commas, on the practice page (where an
  empty value sends nothing) and on the quiz page (where the count matches the correct
  answer's); it depends on the letters only, not on their order.
\<close>

theorem normalized_answer_canonical:
  assumes "currentQuestion ppg = Some q" "multi_answer q"
      and "mset (checked_values (answer_choices ppg)) = mset letters"
      and "nth_opt (conceptGroups pg) (currentIndex pg) = Some g"
      and "isMultiAnswer (question g)" "correct_answer (question g) = Some ans"
      and "length letters = length (split_commas ans)"
      and "mset (checked_values (answerChoices pg)) = mset letters"
  shows "snd (practice_submitAnswer ppg) =
           (if join_commas (sort letters) = [] then []
            else [Fetch (PracticeCheckAnswer (q_id q) (join_commas (sort letters)))])
       \<and> snd (quiz_submitAnswer pg) =
           [Fetch (QuizSubmit (sessionId pg) (q_id (question g)) (join_commas (sort letters))
              (attemptNumber pg) (group_id g))]"
proof -
  have s1: "sort (checked_values (answer_choices ppg)) = sort letters"
    using assms(3) by (rule sort_mset_eq)
  have s2: "sort (checked_values (answerChoices pg)) = sort letters"
    using assms(8) by (rule sort_mset_eq)
  have len: "length (checked_values (answerChoices pg)) = length letters"
    using assms(8) by (metis size_mset)
  have ne: "checked_values (answerChoices pg) \<noteq> []"
    using len assms(7) split_commas_nonempty[of ans] by auto
  show ?thesis
    using practice_gate[OF assms(1,2)] quiz_gate[OF assms(4,5,6)] s1 s2 len ne assms(7)
    by (simp add: normalized_answer_def)
qed

theorem normalized_answer_canonical_witness:
  "mset (checked_values (answer_choices (fst (practice_run [ClickChoice 0, ClickChoice 2]
        (displayQuestion (sample_question ''q1'' True None) blank_practice_page)))))
     = mset [''c'', ''a'']
   \<and> mset (checked_values (answerChoices (fst (quiz_run [QClickChoice 0, QClickChoice 2]
        (started [two_letter_group]))))) = mset [''c'', ''a'']
   \<and> length [''c'', ''a''] = length (split_commas ''a,c'')
   \<and> join_commas (sort [''c'', ''a'']) = ''a,c''
   \<and> snd (practice_submitAnswer (fst (practice_run [ClickChoice 0, ClickChoice 2]
        (displayQuestion (sample_question ''q1'' True None) blank_practice_page))))
     = [Fetch (PracticeCheckAnswer ''q1'' ''a,c'')]
   \<and> snd (quiz_submitAnswer (fst (quiz_run [QClickChoice 0, QClickChoice 2]
        (started [two_letter_group]))))
     = [Fetch (QuizSubmit (Some ''s1'') ''q1'' ''a,c'' 1 ''g1'')]"
  using normalized_answer_canonical[of
      "fst (practice_run [ClickChoice 0, ClickChoice 2]
        (displayQuestion (sample_question ''q1'' True None) blank_practice_page))"
      "sample_question ''q1'' True None" "[''c'', ''a'']"
      "fst (quiz_run [QClickChoice 0, QClickChoice 2] (started [two_letter_group]))"
      two_letter_group "''a,c''"]
  by (simp add: sample_defs group_defs quiz_click_defs displayQuestion_def
        blank_practice_page_def practice_clickChoice_def enable_all_def)

text \<open>
  C9. Restarting a concept-group session resets the cursor to the start, clears the outcome
  map, the session id, the protocol and the concept groups, sets the attempt number back
  to 1, drops the popup handle (after closing the popup if it is open), and leaves the
  drag-and-drop question catalog as it was.
\<close>

theorem restartQuiz_resets_all_but_catalog:
  "sessionId (fst (restartQuiz pg)) = None
   \<and> protocol (fst (restartQuiz pg)) = None
   \<and> conceptGroups (fst (restartQuiz pg)) = []
   \<and> currentIndex (fst (restartQuiz pg)) = 0
   \<and> attemptNumber (fst (restartQuiz pg)) = 1
   \<and> scores (fst (restartQuiz pg)) = Map.empty
   \<and> totalConcepts (fst (restartQuiz pg)) = 0
   \<and> dragDropWindow (fst (restartQuiz pg)) = None
   \<and> dragDropQuestions (fst (restartQuiz pg)) = dragDropQuestions pg
   \<and> snd (restartQuiz pg) = snd (close_dragDropWindow pg)"
  by (simp add: restartQuiz_def close_dragDropWindow_def split: option.splits prod.splits)

text \<open>
  C10 (counterexample). The claim says that the incorrect counter is incremented only when
  a reveal completes successfully. After a wrong answer the student asks for the reveal;
  the response carries no error and no \<^verbatim>\<open>correct_answer\<close>: the callback has
  incremented the counter when \<^verbatim>\<open>highlightCorrectAnswer\<close> throws, and the page shows
  "Failed to reveal answer" without a next button, the incorrect counter at 1.
\<close>

theorem failed_reveal_counts_incorrect:
  "counters (fst (practice_run
       [ClickChoice 1, ClickSubmit, CheckAnswerResponse (wrong_answer 2 True [''b'']),
        ClickReveal]
       (displayQuestion (sample_question ''q1'' False None) blank_practice_page))) = (0, 0, 0)
   \<and> snd (practice_run
       [ClickChoice 1, ClickSubmit, CheckAnswerResponse (wrong_answer 2 True [''b'']),
        ClickReveal]
       (displayQuestion (sample_question ''q1'' False None) blank_practice_page))
      = [Fetch (PracticeCheckAnswer ''q1'' ''b''), Fetch (PracticeExplain ''q1'')]
   \<and> counters (fst (practice_run
       [ClickChoice 1, ClickSubmit, CheckAnswerResponse (wrong_answer 2 True [''b'']),
        ClickReveal, ExplainResponse explanation_without_answer]
       (displayQuestion (sample_question ''q1'' False None) blank_practice_page))) = (0, 1, 0)
   \<and> feedback_content (fst (practice_run
       [ClickChoice 1, ClickSubmit, CheckAnswerResponse (wrong_answer 2 True [''b'']),
        ClickReveal, ExplainResponse explanation_without_answer]
       (displayQuestion (sample_question ''q1'' False None) blank_practice_page)))
      = Failure ''Failed to reveal answer: '' TypeError
   \<and> next_btn_hidden (fst (practice_run
       [ClickChoice 1, ClickSubmit, CheckAnswerResponse (wrong_answer 2 True [''b'']),
        ClickReveal, ExplainResponse explanation_without_answer]
       (displayQuestion (sample_question ''q1'' False None) blank_practice_page)))"
  by (simp add: sample_question_def displayQuestion_def blank_practice_page_def
        practice_clickChoice_def click_input_def nth_opt_def enable_all_def render_choices_def
        checked_values_def practice_submit_available_def practice_submitAnswer_def
        normalized_answer_def truthy_def wrong_answer_def practice_submitAnswer_then_def
        showFeedback_def disable_all_def revealAnswer_def revealAnswer_then_def
        revealAnswer_catch_def explanation_without_answer_def counters_def Let_def)

text \<open>
  C10 (amended). In the linear practice session, handling an incorrect (non-reveal)
  check-answer response leaves the three counters (correct, incorrect, skipped) unchanged.
  The incorrect counter changes exactly in the handling of a reveal response that carries
  no error, where it grows by one: when the response names the correct answer the reveal
  completes (the answer is shown with a next button), and when it does not the page shows
  the failure after the increment. So a question answered wrong and then skipped (try
  again, skip) is counted only as skipped.
\<close>

theorem incorrect_response_keeps_counters:
  assumes "truthy (cd_error data) = None" "\<not> cd_correct data" "truthy (sd_error sk) = None"
      and "currentQuestion pg = Some q"
  shows "counters (practice_submitAnswer_then data pg) = counters pg
       \<and> (\<forall>e p. incorrectCount (fst (practice_step e p)) =
             incorrectCount p
               + (if \<exists>ed. e = ExplainResponse ed \<and> truthy (ed_error ed) = None
                  then 1 else 0))
       \<and> (\<forall>ed p a. truthy (ed_error ed) = None \<longrightarrow> ed_correct_answer ed = Some a \<longrightarrow>
             feedback_status (revealAnswer_then ed p) = (''info'', ''Answer Revealed'')
             \<and> \<not> next_btn_hidden (revealAnswer_then ed p))
       \<and> (\<forall>ed p. truthy (ed_error ed) = None \<longrightarrow> ed_correct_answer ed = None \<longrightarrow>
             revealAnswer_then ed p =
               revealAnswer_catch TypeError
                 (p\<lparr>ai_loading_hidden := True, incorrectCount := incorrectCount p + 1\<rparr>))
       \<and> counters (fst (practice_run
            [CheckAnswerResponse data, ClickTryAgain, ClickSkip, SkipResponse sk] pg))
           = (correctCount pg, incorrectCount pg, skippedCount pg + 1)
       \<and> Fetch (PracticeSkip (q_id q)) \<in> set (snd (practice_run
            [CheckAnswerResponse data, ClickTryAgain, ClickSkip, SkipResponse sk] pg))"
proof (intro conjI allI impI)
  show "counters (practice_submitAnswer_then data pg) = counters pg"
    using assms(1,2) by (rule counters_incorrect)
next
  fix e p
  show "incorrectCount (fst (practice_step e p)) =
        incorrectCount p
          + (if \<exists>ed. e = ExplainResponse ed \<and> truthy (ed_error ed) = None then 1 else 0)"
    by (rule incorrectCount_step_exact)
next
  fix ed :: explain_data and p a
  assume "truthy (ed_error ed) = None" "ed_correct_answer ed = Some a"
  then show "feedback_status (revealAnswer_then ed p) = (''info'', ''Answer Revealed'')"
    and "\<not> next_btn_hidden (revealAnswer_then ed p)"
    using reveal_outcomes(1)[of ed a p] by simp_all
next
  fix ed :: explain_data and p
  assume "truthy (ed_error ed) = None" "ed_correct_answer ed = None"
  then show "revealAnswer_then ed p =
      revealAnswer_catch TypeError
        (p\<lparr>ai_loading_hidden := True, incorrectCount := incorrectCount p + 1\<rparr>)"
    by (rule reveal_outcomes(2))
next
  show "counters (fst (practice_run
            [CheckAnswerResponse data, ClickTryAgain, ClickSkip, SkipResponse sk] pg))
           = (correctCount pg, incorrectCount pg, skippedCount pg + 1)"
    using assms by (rule wrong_then_skip(1))
next
  show "Fetch (PracticeSkip (q_id q)) \<in> set (snd (practice_run
            [CheckAnswerResponse data, ClickTryAgain, ClickSkip, SkipResponse sk] pg))"
    using assms by (rule wrong_then_skip(2))
qed

theorem incorrect_response_keeps_counters_witness:
  "truthy (cd_error (wrong_answer 1 False [''b''])) = None
   \<and> \<not> cd_correct (wrong_answer 1 False [''b''])
   \<and> truthy (sd_error (skipped_to (sample_question ''q2'' False None))) = None
   \<and> truthy (ed_error explanation) = None
   \<and> counters (practice_submitAnswer_then (wrong_answer 1 False [''b''])
        (displayQuestion (sample_question ''q1'' False None) blank_practice_page)) = (0, 0, 0)
   \<and> incorrectCount (fst (practice_step (ExplainResponse explanation)
        (displayQuestion (sample_question ''q1'' False None) blank_practice_page))) = 1
   \<and> incorrectCount (fst (practice_step (CheckAnswerResponse (wrong_answer 1 False [''b'']))
        (displayQuestion (sample_question ''q1'' False None) blank_practice_page))) = 0
   \<and> counters (fst (practice_run
        [CheckAnswerResponse (wrong_answer 1 False [''b'']), ClickTryAgain, ClickSkip,
         SkipResponse (skipped_to (sample_question ''q2'' False None))]
        (displayQuestion (sample_question ''q1'' False None) blank_practice_page))) = (0, 0, 1)"
  using incorrect_response_keeps_counters[of "wrong_answer 1 False [''b'']"
      "skipped_to (sample_question ''q2'' False None)"
      "displayQuestion (sample_question ''q1'' False None) blank_practice_page"
      "sample_question ''q1'' False None"]
  by (simp add: truthy_def wrong_answer_def skipped_to_def displayQuestion_def
        blank_practice_page_def counters_def explanation_def revealAnswer_then_def
        practice_submitAnswer_then_def showFeedback_def Let_def)

end
